theory Spec2Isabelle
  imports Complex_Main "HOL-Library.Option_ord" "HOL-Library.Product_Lexorder"
begin

section \<open>Neighborhood density (calcnd/neighbors.py)\<close>

subsection \<open>Data frames\<close>

text \<open>
  A \<^verbatim>\<open>pandas.DataFrame\<close> is a list of column labels and a list of rows of cells. A cell
  is \<open>None\<close> when the value is missing (NaN, None), so \<^verbatim>\<open>pd.notna(c)\<close> is \<open>c \<noteq> None\<close>,
  and \<^verbatim>\<open>==\<close> on two present cells is equality of their values. The row index of
  \<^verbatim>\<open>iloc\<close> is the position in the list.
\<close>

record 'v frame =
  columns :: "string list"
  rows :: "'v option list list"

text \<open>
  The exceptions of the class. Each \<^verbatim>\<open>ValueError\<close> of \<^verbatim>\<open>__init__\<close> is one constructor,
  named after its message:
  \<^item> \<open>FeaturesNotInData ms\<close>: \<^verbatim>\<open>"Feature(s) {} not in DataFrame data".format(ms)\<close>;
  \<^item> \<open>AllowedMissesTooLarge\<close>: \<^verbatim>\<open>"allowed_misses must be less than or equal to (length(features) - 1)"\<close>;
  \<^item> \<open>AllowedMissesNegative\<close>: \<^verbatim>\<open>"allowed_misses must be >=0"\<close>;
  \<^item> \<open>AllowedMatchesTooLarge\<close>: \<^verbatim>\<open>"allowed_matches cannot exceed length(features)"\<close>;
  \<^item> \<open>AllowedMatchesTooSmall\<close>: \<^verbatim>\<open>"allowed_matches must be greater than 1"\<close>.

  \<open>KeyError\<close> is what \<^verbatim>\<open>columns.get_loc\<close> raises for an unknown label, \<open>IndexError\<close>
  what \<^verbatim>\<open>iloc\<close> and list assignment raise out of range, \<open>ZeroDivisionError\<close> what
  \<^verbatim>\<open>/\<close> raises when the divisor is zero.
\<close>

datatype error =
    FeaturesNotInData "string list"
  | AllowedMissesTooLarge
  | AllowedMissesNegative
  | AllowedMatchesTooLarge
  | AllowedMatchesTooSmall
  | KeyError string
  | IndexError
  | ZeroDivisionError

text \<open>The two error kinds of the specification, as sets of exceptions of the code.\<close>

fun is_UnknownFeatureError :: "error \<Rightarrow> bool" where
  "is_UnknownFeatureError (FeaturesNotInData ms) = True"
| "is_UnknownFeatureError e = False"

fun is_InvalidThresholdError :: "error \<Rightarrow> bool" where
  "is_InvalidThresholdError AllowedMissesTooLarge = True"
| "is_InvalidThresholdError AllowedMissesNegative = True"
| "is_InvalidThresholdError AllowedMatchesTooLarge = True"
| "is_InvalidThresholdError AllowedMatchesTooSmall = True"
| "is_InvalidThresholdError e = False"

text \<open>Sequencing of computations that may raise: the first exception ends the run.\<close>

definition bindE :: "error + 'a \<Rightarrow> ('a \<Rightarrow> error + 'b) \<Rightarrow> error + 'b" where
  "bindE m f = (case m of Inl e \<Rightarrow> Inl e | Inr x \<Rightarrow> f x)"

text \<open>A \<^verbatim>\<open>for x in xs: body\<close> loop over a state.\<close>

fun foldE :: "('a \<Rightarrow> 's \<Rightarrow> error + 's) \<Rightarrow> 'a list \<Rightarrow> 's \<Rightarrow> error + 's" where
  "foldE f [] s = Inr s"
| "foldE f (x # xs) s = (case f x s of Inl e \<Rightarrow> Inl e | Inr s' \<Rightarrow> foldE f xs s')"

text \<open>
  \<^verbatim>\<open>columns.get_loc(name)\<close>: the position of the label, \<^verbatim>\<open>KeyError\<close> when there is none.
  With a label that occurs twice pandas returns a slice or a mask instead of a position;
  the frames considered below have distinct labels (\<open>wf_frame\<close>).
\<close>

fun get_loc :: "string list \<Rightarrow> string \<Rightarrow> error + nat" where
  "get_loc [] name = Inl (KeyError name)"
| "get_loc (c # cs) name =
     (if c = name then Inr 0
      else (case get_loc cs name of Inl e \<Rightarrow> Inl e | Inr p \<Rightarrow> Inr (Suc p)))"

text \<open>\<^verbatim>\<open>data.iloc[i, c]\<close> for positions \<open>i\<close>, \<open>c\<close> that are not negative.\<close>

definition iloc :: "'v frame \<Rightarrow> nat \<Rightarrow> nat \<Rightarrow> error + 'v option" where
  "iloc d i c =
     (if i < length (rows d) then
        (if c < length (rows d ! i) then Inr (rows d ! i ! c) else Inl IndexError)
      else Inl IndexError)"

definition notna :: "'v option \<Rightarrow> bool" where
  "notna c = (c \<noteq> None)"

text \<open>
  A data frame has as many cells in every row as it has columns; the model is of frames
  whose column labels are distinct, as a frame read from a file has them.
\<close>

definition wf_frame :: "'v frame \<Rightarrow> bool" where
  "wf_frame d = (distinct (columns d) \<and> (\<forall>r \<in> set (rows d). length r = length (columns d)))"

subsection \<open>The object\<close>

text \<open>
  The attributes set by \<^verbatim>\<open>__init__\<close> before \<^verbatim>\<open>_Compute\<close> runs are the record \<open>config\<close>;
  the finished object adds \<^verbatim>\<open>self.nd\<close> and \<^verbatim>\<open>self.neighbors\<close>. Of \<^verbatim>\<open>self.nd\<close>, which is
  a copy of the data with the column \<^verbatim>\<open>'Neighborhood Density'\<close>, the model keeps that column.
\<close>

record 'v nbr_row =
  target :: "'v option"
  neighbor :: "'v option"
  num_matched_features :: int
  matched_features :: string

record 'v config =
  data :: "'v frame"
  features :: "string list"
  allowed_misses :: int
  allowed_matches :: int

record 'v Neighbors_obj = "'v config" +
  self_nd :: "int list"
  self_neighbors :: "'v nbr_row list"

subsection \<open>\<^verbatim>\<open>_MatchFeature\<close>\<close>

text \<open>
  \<^verbatim>\<open>and\<close> evaluates its right operand only when the left one is true, so the cell of \<open>j\<close>
  is read only when the cell of \<open>i\<close> is present.
\<close>

definition MatchFeature :: "('v, 'x) config_scheme \<Rightarrow> nat \<Rightarrow> nat \<Rightarrow> string \<Rightarrow> error + bool" where
  "MatchFeature self i j feature =
     bindE (get_loc (columns (data self)) feature) (\<lambda>c.
     bindE (iloc (data self) i c) (\<lambda>a.
       if notna a then
         bindE (iloc (data self) j c) (\<lambda>b.
           if notna b then Inr (a = b) else Inr False)
       else Inr False))"

subsection \<open>\<^verbatim>\<open>_Compute\<close>\<close>

text \<open>The local lists of \<^verbatim>\<open>_Compute\<close>.\<close>

record 'v scan_state =
  nbr_target :: "'v option list"
  nbr_neighbor :: "'v option list"
  nbr_num_match_features :: "int list"
  nbr_match_features :: "string list"
  nd :: "int list"

text \<open>\<^verbatim>\<open>data.iloc[i, data.columns.get_loc("Code")]\<close>\<close>

definition Code_of :: "'v frame \<Rightarrow> nat \<Rightarrow> error + 'v option" where
  "Code_of d i = bindE (get_loc (columns d) ''Code'') (\<lambda>c. iloc d i c)"

text \<open>\<^verbatim>\<open>xs[i] += 1\<close> on a list.\<close>

definition incr :: "int list \<Rightarrow> nat \<Rightarrow> error + int list" where
  "incr xs i = (if i < length xs then Inr (xs[i := xs ! i + 1]) else Inl IndexError)"

text \<open>
  The body of the loop over the features (lines 194 to 206), on the pair
  (\<^verbatim>\<open>matches\<close>, \<^verbatim>\<open>matched_features\<close>). The log message of a match reads both codes.
\<close>

definition feature_step ::
    "('v, 'x) config_scheme \<Rightarrow> nat \<Rightarrow> nat \<Rightarrow> string \<Rightarrow> int \<times> string \<Rightarrow> error + int \<times> string" where
  "feature_step self i j feature acc =
     bindE (MatchFeature self i j feature) (\<lambda>m.
       if m then
         bindE (Code_of (data self) i) (\<lambda>source.
         bindE (Code_of (data self) j) (\<lambda>target.
           Inr (fst acc + 1,
                if snd acc = '''' then feature else snd acc @ '', '' @ feature)))
       else Inr acc)"

text \<open>The body of the loop over \<open>j\<close> (lines 185 to 218).\<close>

definition pair_step ::
    "('v, 'x) config_scheme \<Rightarrow> nat \<Rightarrow> nat \<Rightarrow> 'v scan_state \<Rightarrow> error + 'v scan_state" where
  "pair_step self i j st =
     (if i \<noteq> j then
        bindE (foldE (feature_step self i j) (features self) (0, '''')) (\<lambda>(matches, matched).
          if matches \<ge> int (length (features self)) - allowed_misses self
             \<and> matches \<le> allowed_matches self
          then
            bindE (Code_of (data self) i) (\<lambda>t.
            bindE (Code_of (data self) j) (\<lambda>n.
            bindE (incr (nd st) i) (\<lambda>nd1.
            bindE (incr nd1 j) (\<lambda>nd2.
              Inr (st\<lparr>nbr_target := nbr_target st @ [t],
                      nbr_neighbor := nbr_neighbor st @ [n],
                      nbr_num_match_features := nbr_num_match_features st @ [matches],
                      nbr_match_features := nbr_match_features st @ [matched],
                      nd := nd2\<rparr>)))))
          else Inr st)
      else Inr st)"

text \<open>
  The body of the loop over \<open>i\<close> (lines 155 to 218): the progress message reads the code of
  item \<open>i\<close>, then \<open>j\<close> runs over \<^verbatim>\<open>range(i, len(data.index))\<close>.
\<close>

definition item_step ::
    "('v, 'x) config_scheme \<Rightarrow> nat \<Rightarrow> 'v scan_state \<Rightarrow> error + 'v scan_state" where
  "item_step self i st =
     bindE (Code_of (data self) i) (\<lambda>code.
       foldE (pair_step self i) [i ..< length (rows (data self))] st)"

text \<open>\<^verbatim>\<open>pd.DataFrame(data_dict)\<close> on the four lists, which have the same length.\<close>

definition DataFrame_of :: "'v scan_state \<Rightarrow> 'v nbr_row list" where
  "DataFrame_of st =
     map (\<lambda>(t, n, m, f).
            \<lparr>target = t, neighbor = n, num_matched_features = m, matched_features = f\<rparr>)
         (zip (nbr_target st) (zip (nbr_neighbor st)
            (zip (nbr_num_match_features st) (nbr_match_features st))))"

text \<open>
  The clock. \<^verbatim>\<open>_Compute\<close> reads \<^verbatim>\<open>time.monotonic()\<close> when it starts (line 142,
  \<^verbatim>\<open>start_time\<close>) and when the loops are done (line 227); the two readings, in seconds,
  are an input of the run. The readings taken inside the loop over \<open>i\<close> serve the progress
  messages only, where the division by the time passed is guarded
  (\<^verbatim>\<open>except ZeroDivisionError\<close>, lines 163 to 166); the messages are not part of the
  model.
\<close>

record clock =
  start_time :: real
  stop_time :: real

text \<open>\<^verbatim>\<open>a / b\<close> on numbers of Python.\<close>

definition true_div :: "real \<Rightarrow> real \<Rightarrow> error + real" where
  "true_div a b = (if b = 0 then Inl ZeroDivisionError else Inr (a / b))"

text \<open>
  \<^verbatim>\<open>_Compute\<close>: the loops, the frame of the neighbors (line 226), the time passed and the
  rate \<^verbatim>\<open>len(self.data.index)/elapsed_time\<close> of the last message (lines 227 to 231), and
  the two results.
\<close>

definition Compute ::
    "clock \<Rightarrow> ('v, 'x) config_scheme \<Rightarrow> error + int list \<times> 'v nbr_row list" where
  "Compute clk self =
     bindE (foldE (item_step self) [0 ..< length (rows (data self))]
              \<lparr>nbr_target = [], nbr_neighbor = [], nbr_num_match_features = [],
               nbr_match_features = [],
               nd = replicate (length (rows (data self))) 0\<rparr>)
       (\<lambda>st.
          let neighbors = DataFrame_of st;
              elapsed_time = stop_time clk - start_time clk
          in bindE (true_div (real (length (rows (data self)))) elapsed_time) (\<lambda>rate.
               Inr (nd st, neighbors)))"

subsection \<open>\<^verbatim>\<open>__init__\<close>\<close>

text \<open>
  Lines 38 to 60: the checks, in the order of the source. \<open>allowed_matches\<close> is \<open>None\<close>
  when the caller does not supply it.
\<close>

definition init_checks ::
    "'v frame \<Rightarrow> string list \<Rightarrow> int \<Rightarrow> int option \<Rightarrow> error + 'v config" where
  "init_checks d fs misses matches =
     (let missing_features = filter (\<lambda>x. x \<notin> set (columns d)) fs in
      if missing_features \<noteq> [] then Inl (FeaturesNotInData missing_features)
      else if misses > int (length fs) - 1 then Inl AllowedMissesTooLarge
      else if misses < 0 then Inl AllowedMissesNegative
      else (case matches of
              None \<Rightarrow> Inr \<lparr>data = d, features = fs, allowed_misses = misses,
                           allowed_matches = int (length fs)\<rparr>
            | Some m \<Rightarrow>
                if m > int (length fs) then Inl AllowedMatchesTooLarge
                else if m < 1 then Inl AllowedMatchesTooSmall
                else Inr \<lparr>data = d, features = fs, allowed_misses = misses,
                          allowed_matches = m\<rparr>))"

text \<open>Line 66: the scan runs once the checks have passed.\<close>

definition init ::
    "clock \<Rightarrow> 'v frame \<Rightarrow> string list \<Rightarrow> int \<Rightarrow> int option \<Rightarrow> error + 'v Neighbors_obj" where
  "init clk d fs misses matches =
     bindE (init_checks d fs misses matches) (\<lambda>cfg.
     bindE (Compute clk cfg) (\<lambda>(dens, nbrs).
       Inr (config.extend cfg (Neighbors_obj.fields dens nbrs))))"

subsection \<open>The accessors\<close>

text \<open>
  \<^verbatim>\<open>sort_values(by=['target', 'neighbor'])\<close> is a stable sort on the two columns, with
  missing values last; \<open>na_last\<close> is the key of one column.
\<close>

definition na_last :: "'v option \<Rightarrow> bool \<times> 'v option" where
  "na_last c = (c = None, c)"

definition sort_by :: "'v nbr_row \<Rightarrow> (bool \<times> 'v option) \<times> (bool \<times> 'v option)" where
  "sort_by r = (na_last (target r), na_last (neighbor r))"

text \<open>The copy \<^verbatim>\<open>fd\<close> with the columns \<^verbatim>\<open>target\<close> and \<^verbatim>\<open>neighbor\<close> exchanged.\<close>

definition swap_row :: "'v nbr_row \<Rightarrow> 'v nbr_row" where
  "swap_row r = r\<lparr>target := neighbor r, neighbor := target r\<rparr>"

definition MirrorNeighbors :: "('v::linorder) Neighbors_obj \<Rightarrow> 'v nbr_row list" where
  "MirrorNeighbors self =
     sort_key sort_by (self_neighbors self @ map swap_row (self_neighbors self))"

text \<open>
  The getter of the property \<^verbatim>\<open>Neighbors\<close>, which declares \<^verbatim>\<open>mirror_neighbors=True\<close>. It
  returns the object as it leaves it together with the frame. Reading the property,
  \<^verbatim>\<open>obj.Neighbors\<close>, calls the getter with the object alone, so the parameter has its
  default.
\<close>

definition Neighbors_fget ::
    "('v::linorder) Neighbors_obj \<Rightarrow> bool \<Rightarrow> 'v Neighbors_obj \<times> 'v nbr_row list" where
  "Neighbors_fget self mirror_neighbors =
     (if mirror_neighbors then (self, MirrorNeighbors self) else (self, self_neighbors self))"

definition Neighbors_property ::
    "('v::linorder) Neighbors_obj \<Rightarrow> 'v Neighbors_obj \<times> 'v nbr_row list" where
  "Neighbors_property self = Neighbors_fget self True"

definition ND :: "'v Neighbors_obj \<Rightarrow> int list" where
  "ND self = self_nd self"

subsection \<open>What the scan computes\<close>

text \<open>
  The functions of this subsection are not in the source: they say, without loops and
  without exceptions, what \<^verbatim>\<open>_Compute\<close> produces, and the lemmas below prove that it
  does. \<open>feature_value d i f\<close> is the cell of item \<open>i\<close> in the column labelled \<open>f\<close>.
\<close>

definition feature_value :: "'v frame \<Rightarrow> nat \<Rightarrow> string \<Rightarrow> 'v option" where
  "feature_value d i f = (case get_loc (columns d) f of Inr c \<Rightarrow> rows d ! i ! c | Inl e \<Rightarrow> None)"

text \<open>Two items match on a feature: both values are present and they are equal.\<close>

definition feature_match :: "'v frame \<Rightarrow> nat \<Rightarrow> nat \<Rightarrow> string \<Rightarrow> bool" where
  "feature_match d i j f =
     (feature_value d i f \<noteq> None \<and> feature_value d j f \<noteq> None
      \<and> feature_value d i f = feature_value d j f)"

text \<open>The number of features on which two items match, out of all the features.\<close>

definition match_count :: "('v, 'x) config_scheme \<Rightarrow> nat \<Rightarrow> nat \<Rightarrow> int" where
  "match_count self i j = int (length (filter (feature_match (data self) i j) (features self)))"

text \<open>The text of the column \<^verbatim>\<open>matched_features\<close>: the matching names joined by a comma.\<close>

definition join_step :: "string \<Rightarrow> string \<Rightarrow> string" where
  "join_step acc f = (if acc = '''' then f else acc @ '', '' @ f)"

definition matched_names :: "('v, 'x) config_scheme \<Rightarrow> nat \<Rightarrow> nat \<Rightarrow> string" where
  "matched_names self i j =
     foldl join_step '''' (filter (feature_match (data self) i j) (features self))"

text \<open>The acceptance rule on the match count of a pair.\<close>

definition accepts :: "('v, 'x) config_scheme \<Rightarrow> nat \<times> nat \<Rightarrow> bool" where
  "accepts self p =
     (int (length (features self)) - allowed_misses self \<le> match_count self (fst p) (snd p)
      \<and> match_count self (fst p) (snd p) \<le> allowed_matches self)"

text \<open>
  The pairs of positions in the order the two loops reach them: \<open>i\<close> over
  \<^verbatim>\<open>range(0, n)\<close>, \<open>j\<close> over \<^verbatim>\<open>range(i, n)\<close>, with \<open>i = j\<close> skipped.
\<close>

definition scan_pairs :: "nat \<Rightarrow> (nat \<times> nat) list" where
  "scan_pairs n = concat (map (\<lambda>i. map (Pair i) (filter (\<lambda>j. i \<noteq> j) [i ..< n])) [0 ..< n])"

definition accepted_pairs :: "('v, 'x) config_scheme \<Rightarrow> (nat \<times> nat) list" where
  "accepted_pairs self = filter (accepts self) (scan_pairs (length (rows (data self))))"

text \<open>The row of the neighbors frame for a pair of positions.\<close>

definition pair_row :: "('v, 'x) config_scheme \<Rightarrow> nat \<times> nat \<Rightarrow> 'v nbr_row" where
  "pair_row self p =
     \<lparr>target = feature_value (data self) (fst p) ''Code'',
      neighbor = feature_value (data self) (snd p) ''Code'',
      num_matched_features = match_count self (fst p) (snd p),
      matched_features = matched_names self (fst p) (snd p)\<rparr>"

text \<open>What an accepted pair does to the lists of the scan.\<close>

definition emit :: "('v, 'x) config_scheme \<Rightarrow> nat \<times> nat \<Rightarrow> 'v scan_state \<Rightarrow> 'v scan_state" where
  "emit self p st =
     st\<lparr>nbr_target := nbr_target st @ [feature_value (data self) (fst p) ''Code''],
        nbr_neighbor := nbr_neighbor st @ [feature_value (data self) (snd p) ''Code''],
        nbr_num_match_features := nbr_num_match_features st @ [match_count self (fst p) (snd p)],
        nbr_match_features := nbr_match_features st @ [matched_names self (fst p) (snd p)],
        nd := ((nd st)[fst p := nd st ! fst p + 1])
                [snd p := ((nd st)[fst p := nd st ! fst p + 1]) ! snd p + 1]\<rparr>"

text \<open>The number of pairs of a list that item \<open>x\<close> belongs to.\<close>

definition density :: "(nat \<times> nat) list \<Rightarrow> nat \<Rightarrow> int" where
  "density ps x = int (length (filter (\<lambda>p. fst p = x \<or> snd p = x) ps))"

text \<open>The order \<open>i\<close> ascending, then \<open>j\<close> ascending.\<close>

definition pair_less :: "nat \<times> nat \<Rightarrow> nat \<times> nat \<Rightarrow> bool" where
  "pair_less p q = (fst p < fst q \<or> (fst p = fst q \<and> snd p < snd q))"

text \<open>The exceptions that \<^verbatim>\<open>_Compute\<close> can raise.\<close>

fun scan_error :: "error \<Rightarrow> bool" where
  "scan_error (KeyError k) = True"
| "scan_error IndexError = True"
| "scan_error ZeroDivisionError = True"
| "scan_error e = False"

text \<open>
  The ascending order of the codes of a column, with the missing codes after the present
  ones: \<open>code_before a b\<close> when \<open>a\<close> comes strictly before \<open>b\<close>. It is the order of the
  specification's "sorted by (target, neighbor) ascending", not a function of the source.
\<close>

definition code_before :: "('v::linorder) option \<Rightarrow> 'v option \<Rightarrow> bool" where
  "code_before a b =
     (case a of None \<Rightarrow> False
      | Some x \<Rightarrow> (case b of None \<Rightarrow> True | Some y \<Rightarrow> x < y))"

text \<open>
  The deduplication of the specification (section 8): of a mirrored list, keep the rows
  with \<open>target \<le> neighbor\<close> in the order of the sort. It is not a function of the
  source.
\<close>

definition deduplicate :: "('v::linorder) nbr_row list \<Rightarrow> 'v nbr_row list" where
  "deduplicate rs = filter (\<lambda>r. na_last (target r) \<le> na_last (neighbor r)) rs"

text \<open>A row without its direction: the two codes as a set, and the other two columns.\<close>

definition unordered :: "'v nbr_row \<Rightarrow> 'v option set \<times> int \<times> string" where
  "unordered r = ({target r, neighbor r}, num_matched_features r, matched_features r)"

subsection \<open>The scenario of the specification\<close>

text \<open>
  Section 8 of the specification: three features, items A, B and C, and item D whose F3
  is missing. The codes A to D are written 1 to 4.
\<close>

definition scenario :: "int frame" where
  "scenario =
     \<lparr>columns = [''Code'', ''F1'', ''F2'', ''F3''],
      rows = [[Some 1, Some 1, Some 1, Some 1],
              [Some 2, Some 1, Some 1, Some 1],
              [Some 3, Some 1, Some 1, Some 2],
              [Some 4, Some 1, Some 1, None]]\<rparr>"

definition scenario_cfg :: "int config" where
  "scenario_cfg =
     \<lparr>data = scenario, features = [''F1'', ''F2'', ''F3''], allowed_misses = 0,
      allowed_matches = 3\<rparr>"

definition scenario_obj :: "int Neighbors_obj" where
  "scenario_obj =
     \<lparr>data = scenario, features = [''F1'', ''F2'', ''F3''], allowed_misses = 0,
      allowed_matches = 3,
      self_nd = [1, 1, 0, 0],
      self_neighbors = [\<lparr>target = Some 1, neighbor = Some 2, num_matched_features = 3,
                         matched_features = ''F1, F2, F3''\<rparr>]\<rparr>"

text \<open>A frame with a feature column whose label is the empty string.\<close>

definition unnamed_frame :: "int frame" where
  "unnamed_frame =
     \<lparr>columns = [''Code'', ''''],
      rows = [[Some 1, Some 7],
              [Some 2, Some 7]]\<rparr>"

text \<open>
  A frame whose codes are not in ascending order, one of them missing; items 0 and 1
  agree on F1, and so do items 2 and 3.
\<close>

definition unsorted_frame :: "int frame" where
  "unsorted_frame =
     \<lparr>columns = [''Code'', ''F1''],
      rows = [[Some 5, Some 7],
              [Some 1, Some 7],
              [None, Some 8],
              [Some 3, Some 8]]\<rparr>"

definition unsorted_obj :: "int Neighbors_obj" where
  "unsorted_obj =
     \<lparr>data = unsorted_frame, features = [''F1''], allowed_misses = 0, allowed_matches = 1,
      self_nd = [1, 1, 1, 1],
      self_neighbors =
        [\<lparr>target = Some 5, neighbor = Some 1, num_matched_features = 1,
          matched_features = ''F1''\<rparr>,
         \<lparr>target = None, neighbor = Some 3, num_matched_features = 1,
          matched_features = ''F1''\<rparr>]\<rparr>"

text \<open>The configuration that the checks build on the frame with the unnamed column.\<close>

definition unnamed_cfg :: "int config" where
  "unnamed_cfg =
     \<lparr>data = unnamed_frame, features = [''''], allowed_misses = 0, allowed_matches = 1\<rparr>"

text \<open>A clock that advances by a second during the run, and one that does not advance.\<close>

definition running_clock :: clock where
  "running_clock = \<lparr>start_time = 0, stop_time = 1\<rparr>"

definition stalled_clock :: clock where
  "stalled_clock = \<lparr>start_time = 0, stop_time = 0\<rparr>"

section \<open>Lemmas\<close>

lemma bindE_Inr [simp]: "bindE (Inr x) f = f x"
  by (simp add: bindE_def)

lemma bindE_Inl [simp]: "bindE (Inl e) f = Inl e"
  by (simp add: bindE_def)

lemma get_loc_Inr:
  "f \<in> set cols \<Longrightarrow> \<exists>c. get_loc cols f = Inr c \<and> c < length cols \<and> cols ! c = f"
  by (induction cols) auto

lemma label_unique:
  assumes "distinct cols" "c < length cols" "c' < length cols" "cols ! c' = cols ! c"
  shows "c' = c"
  using assms by (simp add: nth_eq_iff_index_eq)

lemma iloc_wf:
  "wf_frame d \<Longrightarrow> i < length (rows d) \<Longrightarrow> c < length (columns d) \<Longrightarrow> iloc d i c = Inr (rows d ! i ! c)"
  by (simp add: iloc_def wf_frame_def)

lemma lookup_ok:
  assumes "wf_frame d" "f \<in> set (columns d)" "i < length (rows d)"
  shows "bindE (get_loc (columns d) f) (\<lambda>c. iloc d i c) = Inr (feature_value d i f)"
proof -
  from get_loc_Inr [OF assms(2)] obtain c where
    c: "get_loc (columns d) f = Inr c" "c < length (columns d)" by blast
  then show ?thesis using assms by (simp add: feature_value_def iloc_wf)
qed

lemma Code_of_ok:
  "wf_frame d \<Longrightarrow> ''Code'' \<in> set (columns d) \<Longrightarrow> i < length (rows d) \<Longrightarrow>
   Code_of d i = Inr (feature_value d i ''Code'')"
  unfolding Code_of_def by (rule lookup_ok)

lemma MatchFeature_ok:
  assumes "wf_frame (data self)" "f \<in> set (columns (data self))"
    "i < length (rows (data self))" "j < length (rows (data self))"
  shows "MatchFeature self i j f = Inr (feature_match (data self) i j f)"
proof -
  from get_loc_Inr [OF assms(2)] obtain c where
    c: "get_loc (columns (data self)) f = Inr c" "c < length (columns (data self))" by blast
  then show ?thesis using assms
    by (auto simp add: MatchFeature_def feature_match_def feature_value_def iloc_wf notna_def)
qed

lemma feature_loop:
  assumes "wf_frame (data self)" "''Code'' \<in> set (columns (data self))"
    "i < length (rows (data self))" "j < length (rows (data self))"
    "set fs \<subseteq> set (columns (data self))"
  shows "foldE (feature_step self i j) fs acc =
         Inr (fst acc + int (length (filter (feature_match (data self) i j) fs)),
              foldl join_step (snd acc) (filter (feature_match (data self) i j) fs))"
  using assms(5)
proof (induction fs arbitrary: acc)
  case Nil
  then show ?case by simp
next
  case (Cons f fs)
  then have f: "f \<in> set (columns (data self))" and fs: "set fs \<subseteq> set (columns (data self))"
    by auto
  have step: "feature_step self i j f acc =
      Inr (if feature_match (data self) i j f then (fst acc + 1, join_step (snd acc) f) else acc)"
    using assms(1-4) f
    by (simp add: feature_step_def MatchFeature_ok Code_of_ok join_step_def)
  show ?case
    by (simp add: step Cons.IH [OF fs])
qed

lemma pair_step_ok:
  assumes "wf_frame (data self)" "''Code'' \<in> set (columns (data self))"
    "set (features self) \<subseteq> set (columns (data self))"
    "i < length (rows (data self))" "j < length (rows (data self))"
    "length (nd st) = length (rows (data self))"
  shows "pair_step self i j st =
         Inr (if i \<noteq> j \<and> accepts self (i, j) then emit self (i, j) st else st)"
  using assms
  by (simp add: pair_step_def feature_loop Code_of_ok incr_def accepts_def emit_def
      match_count_def matched_names_def)

lemma length_nd_emit [simp]: "length (nd (emit self p st)) = length (nd st)"
  by (simp add: emit_def)

lemma length_nd_fold_emit [simp]: "length (nd (fold (emit self) ps st)) = length (nd st)"
  by (induction ps arbitrary: st) auto

lemma inner_loop:
  assumes "wf_frame (data self)" "''Code'' \<in> set (columns (data self))"
    "set (features self) \<subseteq> set (columns (data self))"
    "i < length (rows (data self))"
  shows "\<forall>j \<in> set js. j < length (rows (data self)) \<Longrightarrow>
    length (nd st) = length (rows (data self)) \<Longrightarrow>
    foldE (pair_step self i) js st =
      Inr (fold (emit self) (filter (accepts self) (map (Pair i) (filter (\<lambda>j. i \<noteq> j) js))) st)"
proof (induction js arbitrary: st)
  case Nil
  then show ?case by simp
next
  case (Cons j js)
  have step: "pair_step self i j st =
         Inr (if i \<noteq> j \<and> accepts self (i, j) then emit self (i, j) st else st)"
    using assms Cons.prems by (intro pair_step_ok) auto
  show ?case using Cons.prems
    by (simp add: step Cons.IH)
qed

lemma outer_loop:
  assumes "wf_frame (data self)" "''Code'' \<in> set (columns (data self))"
    "set (features self) \<subseteq> set (columns (data self))"
  shows "\<forall>i \<in> set is. i < length (rows (data self)) \<Longrightarrow>
    length (nd st) = length (rows (data self)) \<Longrightarrow>
    foldE (item_step self) is st =
      Inr (fold (emit self) (filter (accepts self)
        (concat (map (\<lambda>i. map (Pair i) (filter (\<lambda>j. i \<noteq> j) [i ..< length (rows (data self))])) is))) st)"
proof (induction "is" arbitrary: st)
  case Nil
  then show ?case by simp
next
  case (Cons i "is")
  have i: "i < length (rows (data self))" using Cons.prems by simp
  have step: "item_step self i st =
     Inr (fold (emit self) (filter (accepts self)
        (map (Pair i) (filter (\<lambda>j. i \<noteq> j) [i ..< length (rows (data self))]))) st)"
    using assms i Cons.prems(2)
    by (simp add: item_step_def Code_of_ok inner_loop)
  show ?case using Cons.prems
    by (simp add: step Cons.IH)
qed

lemma Compute_fold:
  assumes "wf_frame (data self)" "''Code'' \<in> set (columns (data self))"
    "set (features self) \<subseteq> set (columns (data self))"
  shows "Compute clk self =
    (if stop_time clk = start_time clk then Inl ZeroDivisionError
     else Inr (nd (fold (emit self) (accepted_pairs self)
               \<lparr>nbr_target = [], nbr_neighbor = [], nbr_num_match_features = [],
                nbr_match_features = [], nd = replicate (length (rows (data self))) 0\<rparr>),
         DataFrame_of (fold (emit self) (accepted_pairs self)
               \<lparr>nbr_target = [], nbr_neighbor = [], nbr_num_match_features = [],
                nbr_match_features = [], nd = replicate (length (rows (data self))) 0\<rparr>)))"
  using assms
  by (simp add: Compute_def outer_loop accepted_pairs_def scan_pairs_def true_div_def Let_def)

lemma fold_emit_lists:
  "nbr_target (fold (emit self) ps st) =
      nbr_target st @ map (\<lambda>p. feature_value (data self) (fst p) ''Code'') ps"
  "nbr_neighbor (fold (emit self) ps st) =
      nbr_neighbor st @ map (\<lambda>p. feature_value (data self) (snd p) ''Code'') ps"
  "nbr_num_match_features (fold (emit self) ps st) =
      nbr_num_match_features st @ map (\<lambda>p. match_count self (fst p) (snd p)) ps"
  "nbr_match_features (fold (emit self) ps st) =
      nbr_match_features st @ map (\<lambda>p. matched_names self (fst p) (snd p)) ps"
  by (induction ps arbitrary: st) (simp_all add: emit_def)

lemma DataFrame_of_fold_emit:
  assumes "nbr_target st = []" "nbr_neighbor st = []" "nbr_num_match_features st = []"
    "nbr_match_features st = []"
  shows "DataFrame_of (fold (emit self) ps st) = map (pair_row self) ps"
  using assms
  by (simp add: DataFrame_of_def fold_emit_lists zip_map_map pair_row_def zip_same_conv_map)

lemma nth_nd_emit:
  assumes "fst p < length (nd st)" "snd p < length (nd st)" "fst p \<noteq> snd p" "x < length (nd st)"
  shows "nd (emit self p st) ! x = nd st ! x + (if fst p = x \<or> snd p = x then 1 else 0)"
  using assms by (auto simp add: emit_def nth_list_update)

lemma nth_nd_fold_emit:
  "\<forall>p \<in> set ps. fst p < length (nd st) \<and> snd p < length (nd st) \<and> fst p \<noteq> snd p \<Longrightarrow>
    x < length (nd st) \<Longrightarrow>
    nd (fold (emit self) ps st) ! x = nd st ! x + density ps x"
proof (induction ps rule: rev_induct)
  case Nil
  then show ?case by (simp add: density_def)
next
  case (snoc p ps)
  have "nd (fold (emit self) (ps @ [p]) st) ! x =
        nd (emit self p (fold (emit self) ps st)) ! x" by simp
  also have "\<dots> = nd (fold (emit self) ps st) ! x + (if fst p = x \<or> snd p = x then 1 else 0)"
    using snoc.prems by (intro nth_nd_emit) auto
  also have "\<dots> = nd st ! x + density ps x + (if fst p = x \<or> snd p = x then 1 else 0)"
    using snoc by simp
  finally show ?case by (simp add: density_def)
qed

lemma sum_list_incr:
  fixes xs :: "int list"
  shows "i < length xs \<Longrightarrow> sum_list (xs[i := xs ! i + 1]) = sum_list xs + 1"
proof (induction xs arbitrary: i)
  case Nil
  then show ?case by simp
next
  case (Cons a xs)
  then show ?case by (cases i) auto
qed

lemma sum_nd_emit:
  assumes "fst p < length (nd st)" "snd p < length (nd st)"
  shows "sum_list (nd (emit self p st)) = sum_list (nd st) + 2"
  using assms by (simp add: emit_def sum_list_incr)

lemma sum_nd_fold_emit:
  "\<forall>p \<in> set ps. fst p < length (nd st) \<and> snd p < length (nd st) \<Longrightarrow>
    sum_list (nd (fold (emit self) ps st)) = sum_list (nd st) + 2 * int (length ps)"
proof (induction ps arbitrary: st rule: rev_induct)
  case Nil
  then show ?case by simp
next
  case (snoc p ps)
  then show ?case by (simp add: sum_nd_emit)
qed

lemma scan_row_eq: "filter (\<lambda>j. i \<noteq> j) [i ..< n] = [Suc i ..< n]"
proof (cases "i < n")
  case True
  have "filter (\<lambda>j. i \<noteq> j) [Suc i ..< n] = [Suc i ..< n]"
    by (rule filter_True) auto
  with True show ?thesis by (simp add: upt_conv_Cons)
next
  case False
  then show ?thesis by simp
qed

lemma set_scan_pairs: "set (scan_pairs n) = {(i, j). i < j \<and> j < n}"
  unfolding scan_pairs_def scan_row_eq by force

lemma sorted_scan_rows:
  "sorted_wrt pair_less (concat (map (\<lambda>i. map (Pair i) [Suc i ..< n]) [a ..< b]))"
proof (induction "b - a" arbitrary: a)
  case 0
  then show ?case by simp
next
  case (Suc k)
  then have ab: "a < b" and k: "k = b - Suc a" by auto
  have row: "sorted_wrt pair_less (map (Pair a) [Suc a ..< n])"
    by (simp add: sorted_wrt_map pair_less_def sorted_wrt_iff_nth_less)
  have "sorted_wrt pair_less (map (Pair a) [Suc a ..< n] @
      concat (map (\<lambda>i. map (Pair i) [Suc i ..< n]) [Suc a ..< b]))"
    unfolding sorted_wrt_append using row Suc.hyps(1) [OF k]
    by (auto simp add: pair_less_def)
  then show ?case using ab by (simp add: upt_conv_Cons)
qed

lemma sorted_scan_pairs: "sorted_wrt pair_less (scan_pairs n)"
  unfolding scan_pairs_def scan_row_eq by (rule sorted_scan_rows)

lemma distinct_scan_pairs: "distinct (scan_pairs n)"
proof -
  have "sorted_wrt (\<lambda>p q. p \<noteq> q) (scan_pairs n)"
    by (rule sorted_wrt_mono_rel [OF _ sorted_scan_pairs]) (auto simp add: pair_less_def)
  then show ?thesis by (simp add: distinct_conv_nth sorted_wrt_iff_nth_less) (metis nat_neq_iff)
qed

lemma density_scan_le:
  assumes "set ps \<subseteq> set (scan_pairs n)" "distinct ps" "x < n"
  shows "density ps x \<le> int n - 1"
proof -
  let ?F = "filter (\<lambda>p. fst p = x \<or> snd p = x) ps"
  have "set ?F \<subseteq> (\<lambda>i. (i, x)) ` {..<x} \<union> Pair x ` {x<..<n}"
    using assms(1) by (auto simp add: set_scan_pairs)
  then have "card (set ?F) \<le> card ((\<lambda>i. (i, x)) ` {..<x} \<union> Pair x ` {x<..<n})"
    by (intro card_mono) auto
  also have "\<dots> \<le> card ((\<lambda>i. (i, x)) ` {..<x}) + card (Pair x ` {x<..<n})"
    by (rule card_Un_le)
  also have "\<dots> \<le> card {..<x} + card {x<..<n}"
    by (intro add_mono card_image_le) auto
  also have "\<dots> = n - 1" using assms(3) by simp
  finally have "card (set ?F) \<le> n - 1" .
  moreover have "distinct ?F" using assms(2) by simp
  ultimately have "length ?F \<le> n - 1" using distinct_card [of ?F] by linarith
  then show ?thesis using assms(3) by (simp add: density_def)
qed

lemma init_checks_Inr:
  assumes "init_checks d fs misses matches = Inr self"
  shows "data self = d" "features self = fs" "allowed_misses self = misses"
    "set fs \<subseteq> set (columns d)" "0 \<le> misses" "misses \<le> int (length fs) - 1"
    "allowed_matches self = (case matches of None \<Rightarrow> int (length fs) | Some m \<Rightarrow> m)"
    "1 \<le> allowed_matches self" "allowed_matches self \<le> int (length fs)"
  using assms
  by (auto simp add: init_checks_def Let_def filter_empty_conv split: if_splits option.splits)

lemma nd_fold_emit_eq:
  assumes "\<forall>p \<in> set ps. fst p < n \<and> snd p < n \<and> fst p \<noteq> snd p"
  shows "nd (fold (emit self) ps
           \<lparr>nbr_target = [], nbr_neighbor = [], nbr_num_match_features = [],
            nbr_match_features = [], nd = replicate n 0\<rparr>) = map (density ps) [0 ..< n]"
proof (rule nth_equalityI)
  show "length (nd (fold (emit self) ps
           \<lparr>nbr_target = [], nbr_neighbor = [], nbr_num_match_features = [],
            nbr_match_features = [], nd = replicate n 0\<rparr>)) = length (map (density ps) [0 ..< n])"
    by simp
next
  fix x
  assume "x < length (nd (fold (emit self) ps
           \<lparr>nbr_target = [], nbr_neighbor = [], nbr_num_match_features = [],
            nbr_match_features = [], nd = replicate n 0\<rparr>))"
  then have x: "x < n" by simp
  show "nd (fold (emit self) ps
           \<lparr>nbr_target = [], nbr_neighbor = [], nbr_num_match_features = [],
            nbr_match_features = [], nd = replicate n 0\<rparr>) ! x = map (density ps) [0 ..< n] ! x"
    using assms x by (subst nth_nd_fold_emit) auto
qed

lemma accepted_pairs_range:
  "p \<in> set (accepted_pairs self) \<Longrightarrow>
     fst p < snd p \<and> snd p < length (rows (data self))"
  by (auto simp add: accepted_pairs_def set_scan_pairs)

lemma Compute_eq:
  assumes "wf_frame (data self)" "''Code'' \<in> set (columns (data self))"
    "set (features self) \<subseteq> set (columns (data self))"
  shows "Compute clk self =
    (if stop_time clk = start_time clk then Inl ZeroDivisionError
     else Inr (map (density (accepted_pairs self)) [0 ..< length (rows (data self))],
         map (pair_row self) (accepted_pairs self)))"
proof -
  have "\<forall>p \<in> set (accepted_pairs self).
          fst p < length (rows (data self)) \<and> snd p < length (rows (data self)) \<and> fst p \<noteq> snd p"
    using accepted_pairs_range [of _ self] by fastforce
  then show ?thesis
    by (simp add: Compute_fold [OF assms] nd_fold_emit_eq DataFrame_of_fold_emit)
qed

lemma sum_density:
  assumes "\<forall>p \<in> set ps. fst p < n \<and> snd p < n \<and> fst p \<noteq> snd p"
  shows "sum_list (map (density ps) [0 ..< n]) = 2 * int (length ps)"
proof -
  let ?st = "\<lparr>nbr_target = [], nbr_neighbor = [], nbr_num_match_features = [],
            nbr_match_features = [], nd = replicate n (0::int)\<rparr> :: unit scan_state"
  have "sum_list (nd (fold (emit (undefined :: unit config)) ps ?st)) = sum_list (nd ?st) + 2 * int (length ps)"
    using assms by (intro sum_nd_fold_emit) auto
  then show ?thesis using assms by (simp add: nd_fold_emit_eq sum_list_replicate)
qed

lemma bindE_InlD:
  "bindE m f = Inl e \<Longrightarrow> m = Inl e \<or> (\<exists>x. m = Inr x \<and> f x = Inl e)"
  by (cases m) (auto simp add: bindE_def)

lemma foldE_InlD:
  "foldE f xs s = Inl e \<Longrightarrow> \<exists>x \<in> set xs. \<exists>s'. f x s' = Inl e"
  by (induction xs arbitrary: s) (auto split: sum.splits)

lemma get_loc_error: "get_loc cols name = Inl e \<Longrightarrow> scan_error e"
  by (induction cols) (auto split: if_splits sum.splits)

lemma iloc_error: "iloc d i c = Inl e \<Longrightarrow> scan_error e"
  by (auto simp add: iloc_def split: if_splits)

lemma Code_of_error: "Code_of d i = Inl e \<Longrightarrow> scan_error e"
  unfolding Code_of_def by (auto dest!: bindE_InlD dest: get_loc_error iloc_error)

lemma incr_error: "incr xs i = Inl e \<Longrightarrow> scan_error e"
  by (auto simp add: incr_def split: if_splits)

lemma MatchFeature_error: "MatchFeature self i j f = Inl e \<Longrightarrow> scan_error e"
  unfolding MatchFeature_def
  by (auto dest!: bindE_InlD dest: get_loc_error iloc_error split: if_splits)

lemma feature_step_error: "feature_step self i j f acc = Inl e \<Longrightarrow> scan_error e"
  unfolding feature_step_def
  by (auto dest!: bindE_InlD dest: MatchFeature_error Code_of_error split: if_splits)

lemma pair_step_error: "pair_step self i j st = Inl e \<Longrightarrow> scan_error e"
  unfolding pair_step_def
  by (auto dest!: bindE_InlD foldE_InlD dest: feature_step_error Code_of_error incr_error
      split: if_splits prod.splits)

lemma item_step_error: "item_step self i st = Inl e \<Longrightarrow> scan_error e"
  unfolding item_step_def
  by (auto dest!: bindE_InlD foldE_InlD dest: pair_step_error Code_of_error)

lemma true_div_error: "true_div a b = Inl e \<Longrightarrow> scan_error e"
  by (auto simp add: true_div_def split: if_splits)

lemma Compute_error: "Compute clk self = Inl e \<Longrightarrow> scan_error e"
  unfolding Compute_def Let_def
  by (auto dest!: bindE_InlD foldE_InlD dest: item_step_error true_div_error)

lemma init_Inl:
  "init clk d fs misses matches = Inl e \<Longrightarrow>
     init_checks d fs misses matches = Inl e \<or> scan_error e"
  unfolding init_def
  by (auto dest!: bindE_InlD dest: Compute_error split: prod.splits)

lemma init_checks_Inl_init:
  "init_checks d fs misses matches = Inl e \<Longrightarrow> init clk d fs misses matches = Inl e"
  by (simp add: init_def)

lemma foldl_join_nonempty:
  "'''' \<notin> set gs \<Longrightarrow> acc \<noteq> '''' \<or> gs \<noteq> [] \<Longrightarrow> foldl join_step acc gs \<noteq> ''''"
  by (induction gs arbitrary: acc) (auto simp add: join_step_def)

lemma set_MirrorNeighbors:
  "set (MirrorNeighbors self) = set (self_neighbors self) \<union> swap_row ` set (self_neighbors self)"
  by (simp add: MirrorNeighbors_def)

lemma length_MirrorNeighbors:
  "length (MirrorNeighbors self) = 2 * length (self_neighbors self)"
  by (simp add: MirrorNeighbors_def)

lemma sorted_MirrorNeighbors: "sorted (map sort_by (MirrorNeighbors self))"
  by (simp add: MirrorNeighbors_def)

lemma scenario_checks:
  "init_checks scenario [''F1'', ''F2'', ''F3''] 0 None = Inr scenario_cfg"
  by (simp add: init_checks_def scenario_def scenario_cfg_def)

lemma scenario_wf: "wf_frame scenario"
  by (simp add: wf_frame_def scenario_def)

lemma scenario_Code: "''Code'' \<in> set (columns scenario)"
  by (simp add: scenario_def)

lemma scenario_rows: "length (rows scenario) = 4"
  by (simp add: scenario_def)

lemma length_filter_all: "length (filter P xs) = length xs \<longleftrightarrow> (\<forall>x \<in> set xs. P x)"
proof (induction xs)
  case Nil
  then show ?case by simp
next
  case (Cons a xs)
  have "length (filter P xs) \<le> length xs" by simp
  then have "length (filter P xs) \<noteq> Suc (length xs)" by arith
  with Cons show ?case by auto
qed

lemma match_count_le: "match_count self i j \<le> int (length (features self))"
  by (simp add: match_count_def)

lemma match_count_full:
  "match_count self i j = int (length (features self)) \<longleftrightarrow>
     (\<forall>f \<in> set (features self). feature_match (data self) i j f)"
  by (simp add: match_count_def length_filter_all)

lemma mem_accepted_pairs:
  "i < j \<Longrightarrow> j < length (rows (data self)) \<Longrightarrow>
   (i, j) \<in> set (accepted_pairs self) \<longleftrightarrow> accepts self (i, j)"
  by (simp add: accepted_pairs_def set_scan_pairs)

lemma distinct_accepted_pairs: "distinct (accepted_pairs self)"
  by (simp add: accepted_pairs_def distinct_scan_pairs)

lemma init_Inr:
  assumes "init clk d fs misses matches = Inr obj"
  shows "\<exists>cfg dens nbrs. init_checks d fs misses matches = Inr cfg
       \<and> Compute clk cfg = Inr (dens, nbrs)
       \<and> obj = config.extend cfg (Neighbors_obj.fields dens nbrs)"
  using assms unfolding init_def bindE_def
  by (auto split: sum.splits prod.splits)

lemma extend_fields [simp]:
  "data (config.extend cfg x) = data cfg"
  "features (config.extend cfg x) = features cfg"
  "allowed_misses (config.extend cfg x) = allowed_misses cfg"
  "allowed_matches (config.extend cfg x) = allowed_matches cfg"
  "self_nd (config.extend cfg (Neighbors_obj.fields dens nbrs)) = dens"
  "self_neighbors (config.extend cfg (Neighbors_obj.fields dens nbrs)) = nbrs"
  by (simp_all add: config.defs Neighbors_obj.defs)

lemma match_count_extend [simp]:
  "match_count (config.extend cfg x) i j = match_count cfg i j"
  by (simp add: match_count_def)

lemma matched_names_extend [simp]:
  "matched_names (config.extend cfg x) i j = matched_names cfg i j"
  by (simp add: matched_names_def)

lemma accepts_extend [simp]: "accepts (config.extend cfg x) = accepts cfg"
  by (rule ext) (simp add: accepts_def)

lemma accepted_pairs_extend [simp]: "accepted_pairs (config.extend cfg x) = accepted_pairs cfg"
  by (simp add: accepted_pairs_def)

lemma pair_row_extend [simp]: "pair_row (config.extend cfg x) = pair_row cfg"
  by (rule ext) (simp add: pair_row_def)

lemma scan_not_threshold: "scan_error e \<Longrightarrow> \<not> is_InvalidThresholdError e"
  by (cases e) auto

lemma scan_not_feature: "scan_error e \<Longrightarrow> \<not> is_UnknownFeatureError e"
  by (cases e) auto

lemma init_checks_threshold:
  assumes "set fs \<subseteq> set (columns d)"
  shows "(\<exists>e. init_checks d fs misses matches = Inl e \<and> is_InvalidThresholdError e) \<longleftrightarrow>
         (misses < 0 \<or> int (length fs) - 1 < misses
          \<or> (\<exists>m. matches = Some m \<and> (m < 1 \<or> int (length fs) < m)))"
proof -
  have "filter (\<lambda>x. x \<notin> set (columns d)) fs = []"
    using assms by (auto simp add: filter_empty_conv)
  then show ?thesis
    by (auto simp add: init_checks_def split: option.splits)
qed

lemma swap_row_fields [simp]:
  "target (swap_row r) = neighbor r"
  "neighbor (swap_row r) = target r"
  "num_matched_features (swap_row r) = num_matched_features r"
  "matched_features (swap_row r) = matched_features r"
  by (simp_all add: swap_row_def)

lemma unordered_swap_row [simp]: "unordered (swap_row r) = unordered r"
  by (auto simp add: unordered_def)

lemma deduplicate_mirror:
  fixes rs :: "('v::linorder) nbr_row list"
  shows "unordered ` set (deduplicate (sort_key sort_by (rs @ map swap_row rs))) = unordered ` set rs"
proof (intro equalityI subsetI)
  fix u
  assume "u \<in> unordered ` set (deduplicate (sort_key sort_by (rs @ map swap_row rs)))"
  then obtain r where "r \<in> set rs \<union> swap_row ` set rs" and "u = unordered r"
    by (auto simp add: deduplicate_def)
  then show "u \<in> unordered ` set rs" by auto
next
  fix u
  assume "u \<in> unordered ` set rs"
  then obtain r where r: "r \<in> set rs" and u: "u = unordered r" by blast
  show "u \<in> unordered ` set (deduplicate (sort_key sort_by (rs @ map swap_row rs)))"
  proof (cases "na_last (target r) \<le> na_last (neighbor r)")
    case True
    with r have "r \<in> set (deduplicate (sort_key sort_by (rs @ map swap_row rs)))"
      by (simp add: deduplicate_def)
    with u show ?thesis by blast
  next
    case False
    then have "na_last (target (swap_row r)) \<le> na_last (neighbor (swap_row r))"
      by simp
    with r have "swap_row r \<in> set (deduplicate (sort_key sort_by (rs @ map swap_row rs)))"
      by (simp add: deduplicate_def)
    moreover have "u = unordered (swap_row r)" using u by simp
    ultimately show ?thesis by blast
  qed
qed

lemma matched_names_nonempty:
  assumes "'''' \<notin> set (features self)" "1 \<le> match_count self i j"
  shows "matched_names self i j \<noteq> ''''"
proof -
  have "filter (feature_match (data self) i j) (features self) \<noteq> []"
    using assms(2) by (auto simp add: match_count_def)
  moreover have "'''' \<notin> set (filter (feature_match (data self) i j) (features self))"
    using assms(1) by simp
  ultimately show ?thesis
    unfolding matched_names_def by (intro foldl_join_nonempty) auto
qed

lemma na_last_less: "na_last a < na_last b \<longleftrightarrow> code_before a b"
  by (cases a; cases b) (auto simp add: na_last_def code_before_def less_prod_def)

lemma na_last_eq: "na_last a = na_last b \<longleftrightarrow> a = b"
  by (auto simp add: na_last_def)

lemma sort_by_le:
  assumes "sort_by r \<le> sort_by r'"
  shows "code_before (target r) (target r')
     \<or> (target r = target r' \<and> \<not> code_before (neighbor r') (neighbor r))"
proof (cases "na_last (target r) < na_last (target r')")
  case True
  then show ?thesis by (simp add: na_last_less)
next
  case False
  from assms have "na_last (target r) < na_last (target r')
      \<or> (na_last (target r) \<le> na_last (target r')
          \<and> na_last (neighbor r) \<le> na_last (neighbor r'))"
    by (simp add: sort_by_def)
  with False have le: "na_last (target r) \<le> na_last (target r')"
    and nb: "na_last (neighbor r) \<le> na_last (neighbor r')"
    by blast+
  from le False have "na_last (target r) = na_last (target r')"
    by (simp add: order.order_iff_strict)
  moreover from nb have "\<not> na_last (neighbor r') < na_last (neighbor r)"
    by (simp add: not_less)
  ultimately show ?thesis by (simp add: na_last_eq na_last_less)
qed

lemma sorted_by_codes:
  "sorted_wrt (\<lambda>r r'. code_before (target r) (target r')
                 \<or> (target r = target r' \<and> \<not> code_before (neighbor r') (neighbor r)))
     (MirrorNeighbors self)"
proof -
  have "sorted_wrt (\<lambda>r r'. sort_by r \<le> sort_by r') (MirrorNeighbors self)"
    using sorted_MirrorNeighbors [of self] by (simp add: sorted_map)
  then show ?thesis
    by (rule sorted_wrt_mono_rel [rotated]) (rule sort_by_le)
qed

lemma init_validated:
  assumes "init_checks d fs misses matches = Inr self"
    and "wf_frame d" and "''Code'' \<in> set (columns d)"
  shows "init clk d fs misses matches =
    (if stop_time clk = start_time clk then Inl ZeroDivisionError
     else Inr (config.extend self
            (Neighbors_obj.fields
               (map (density (accepted_pairs self)) [0 ..< length (rows d)])
               (map (pair_row self) (accepted_pairs self)))))"
proof -
  note c = init_checks_Inr [OF assms(1)]
  have "Compute clk self =
    (if stop_time clk = start_time clk then Inl ZeroDivisionError
     else Inr (map (density (accepted_pairs self)) [0 ..< length (rows d)],
         map (pair_row self) (accepted_pairs self)))"
    using Compute_eq [of self clk] assms(2,3) c(1,2,4) by simp
  then show ?thesis
    using assms(1) by (simp add: init_def)
qed

section \<open>The claims\<close>

text \<open>
  C1. Once the checks of \<^verbatim>\<open>__init__\<close> have passed, the scan returns (unless the clock
  has not advanced, when the last message raises) one row for each
  pair of \<open>accepted_pairs\<close> and, for each item, the number of those pairs it belongs to;
  the pairs are distinct; and a pair \<open>i < j\<close> of items is among them if and only if its
  match count is at least \<open>k - allowed_misses\<close> and at most \<open>allowed_matches\<close>, where \<open>k\<close>
  is the number of features. With \<open>allowed_misses = 0\<close> and \<open>allowed_matches = k\<close> the pair
  is accepted if and only if the two items match on every feature, each value present.
\<close>

theorem neighbor_iff_thresholds:
  assumes "init_checks d fs misses matches = Inr self"
    and "wf_frame d" and "''Code'' \<in> set (columns d)"
    and "i < j" and "j < length (rows d)"
  shows "Compute clk self =
           (if stop_time clk = start_time clk then Inl ZeroDivisionError
            else Inr (map (density (accepted_pairs self)) [0 ..< length (rows d)],
                      map (pair_row self) (accepted_pairs self)))
       \<and> distinct (accepted_pairs self)
       \<and> ((i, j) \<in> set (accepted_pairs self) \<longleftrightarrow>
            int (length fs) - misses \<le> match_count self i j
            \<and> match_count self i j \<le> allowed_matches self)
       \<and> (misses = 0 \<and> allowed_matches self = int (length fs) \<longrightarrow>
            ((i, j) \<in> set (accepted_pairs self) \<longleftrightarrow> (\<forall>f \<in> set fs. feature_match d i j f)))"
proof -
  note c = init_checks_Inr [OF assms(1)]
  have "Compute clk self =
           (if stop_time clk = start_time clk then Inl ZeroDivisionError
            else Inr (map (density (accepted_pairs self)) [0 ..< length (rows d)],
                      map (pair_row self) (accepted_pairs self)))"
    using Compute_eq [of self clk] assms(2,3) c(1,2,4) by simp
  moreover have mem: "(i, j) \<in> set (accepted_pairs self) \<longleftrightarrow>
            int (length fs) - misses \<le> match_count self i j
            \<and> match_count self i j \<le> allowed_matches self"
    using mem_accepted_pairs [of i j self] assms(4,5) c(1,2,3) by (simp add: accepts_def)
  moreover have "misses = 0 \<and> allowed_matches self = int (length fs) \<longrightarrow>
            ((i, j) \<in> set (accepted_pairs self) \<longleftrightarrow> (\<forall>f \<in> set fs. feature_match d i j f))"
    using mem match_count_le [of self i j] match_count_full [of self i j] c(1,2) by auto
  ultimately show ?thesis using distinct_accepted_pairs [of self] by blast
qed

theorem neighbor_iff_thresholds_witness:
  "init_checks scenario [''F1'', ''F2'', ''F3''] 0 None = Inr scenario_cfg
   \<and> wf_frame scenario \<and> ''Code'' \<in> set (columns scenario)
   \<and> (0::nat) < 1 \<and> 1 < length (rows scenario)
   \<and> stop_time running_clock \<noteq> start_time running_clock
   \<and> Compute running_clock scenario_cfg =
           Inr (map (density (accepted_pairs scenario_cfg)) [0 ..< length (rows scenario)],
                map (pair_row scenario_cfg) (accepted_pairs scenario_cfg))
   \<and> ((0, 1) \<in> set (accepted_pairs scenario_cfg) \<longleftrightarrow>
            int (length [''F1'', ''F2'', ''F3'']) - 0 \<le> match_count scenario_cfg 0 1
            \<and> match_count scenario_cfg 0 1 \<le> allowed_matches scenario_cfg)
   \<and> ((0, 1) \<in> set (accepted_pairs scenario_cfg) \<longleftrightarrow>
         (\<forall>f \<in> set [''F1'', ''F2'', ''F3'']. feature_match scenario 0 1 f))
   \<and> accepted_pairs scenario_cfg = [(0, 1)]"
proof -
  have lt: "(0::nat) < 1" by simp
  have len: "1 < length (rows scenario)" by (simp add: scenario_rows)
  have am: "allowed_matches scenario_cfg = int (length [''F1'', ''F2'', ''F3''])"
    by (simp add: scenario_cfg_def)
  have a: "accepted_pairs scenario_cfg = [(0, 1)]"
    by code_simp
  have ne: "stop_time running_clock \<noteq> start_time running_clock"
    by (simp add: running_clock_def)
  note t = neighbor_iff_thresholds [OF scenario_checks scenario_wf scenario_Code lt len,
      where clk = running_clock]
  from t ne have r: "Compute running_clock scenario_cfg =
           Inr (map (density (accepted_pairs scenario_cfg)) [0 ..< length (rows scenario)],
                map (pair_row scenario_cfg) (accepted_pairs scenario_cfg))"
    by simp
  from t am r ne show ?thesis
    using scenario_checks scenario_wf scenario_Code lt len a by blast
qed

text \<open>
  C2. For two items of the data and a feature of the checked feature list, the feature is
  the label of exactly one column, and \<^verbatim>\<open>_MatchFeature\<close> returns, without raising, whether
  both cells of that column are present and equal; it returns \<open>False\<close> as soon as one of
  the two is missing.
\<close>

theorem MatchFeature_iff:
  assumes "init_checks d fs misses matches = Inr self"
    and "wf_frame d" and "feature \<in> set fs"
    and "i < length (rows d)" and "j < length (rows d)"
  shows "\<exists>c < length (columns d). columns d ! c = feature
       \<and> (\<forall>c' < length (columns d). columns d ! c' = feature \<longrightarrow> c' = c)
       \<and> MatchFeature self i j feature =
           Inr (rows d ! i ! c \<noteq> None \<and> rows d ! j ! c \<noteq> None \<and> rows d ! i ! c = rows d ! j ! c)
       \<and> (rows d ! i ! c = None \<or> rows d ! j ! c = None \<longrightarrow>
            MatchFeature self i j feature = Inr False)"
proof -
  note c = init_checks_Inr [OF assms(1)]
  have f: "feature \<in> set (columns d)" using c(4) assms(3) by auto
  from get_loc_Inr [OF f] obtain p where
    p: "get_loc (columns d) feature = Inr p" "p < length (columns d)" "columns d ! p = feature"
    by blast
  have dist: "distinct (columns d)" using assms(2) by (simp add: wf_frame_def)
  have u: "\<forall>c' < length (columns d). columns d ! c' = feature \<longrightarrow> c' = p"
  proof (intro allI impI)
    fix c'
    assume "c' < length (columns d)" and "columns d ! c' = feature"
    then show "c' = p" using label_unique [OF dist p(2), of c'] p(3) by simp
  qed
  have "MatchFeature self i j feature = Inr (feature_match d i j feature)"
    using MatchFeature_ok [of self feature i j] assms(2,4,5) f c(1) by simp
  then have m: "MatchFeature self i j feature =
           Inr (rows d ! i ! p \<noteq> None \<and> rows d ! j ! p \<noteq> None \<and> rows d ! i ! p = rows d ! j ! p)"
    using p(1) by (simp add: feature_match_def feature_value_def)
  then have n: "rows d ! i ! p = None \<or> rows d ! j ! p = None \<longrightarrow>
            MatchFeature self i j feature = Inr False"
    by auto
  show ?thesis
  proof (intro exI [of _ p] conjI)
    show "p < length (columns d)" by (rule p(2))
    show "columns d ! p = feature" by (rule p(3))
    show "\<forall>c' < length (columns d). columns d ! c' = feature \<longrightarrow> c' = p" by (rule u)
    show "MatchFeature self i j feature =
           Inr (rows d ! i ! p \<noteq> None \<and> rows d ! j ! p \<noteq> None \<and> rows d ! i ! p = rows d ! j ! p)"
      by (rule m)
    show "rows d ! i ! p = None \<or> rows d ! j ! p = None \<longrightarrow>
            MatchFeature self i j feature = Inr False" by (rule n)
  qed
qed

theorem MatchFeature_iff_witness:
  "init_checks scenario [''F1'', ''F2'', ''F3''] 0 None = Inr scenario_cfg
   \<and> wf_frame scenario \<and> ''F3'' \<in> set [''F1'', ''F2'', ''F3'']
   \<and> 0 < length (rows scenario) \<and> 3 < length (rows scenario)
   \<and> (\<exists>c < length (columns scenario). columns scenario ! c = ''F3''
       \<and> (\<forall>c' < length (columns scenario). columns scenario ! c' = ''F3'' \<longrightarrow> c' = c)
       \<and> MatchFeature scenario_cfg 0 3 ''F3'' =
           Inr (rows scenario ! 0 ! c \<noteq> None \<and> rows scenario ! 3 ! c \<noteq> None
                \<and> rows scenario ! 0 ! c = rows scenario ! 3 ! c)
       \<and> (rows scenario ! 0 ! c = None \<or> rows scenario ! 3 ! c = None \<longrightarrow>
            MatchFeature scenario_cfg 0 3 ''F3'' = Inr False))
   \<and> MatchFeature scenario_cfg 0 3 ''F3'' = Inr False
   \<and> MatchFeature scenario_cfg 0 1 ''F3'' = Inr True"
proof -
  have f: "''F3'' \<in> set [''F1'', ''F2'', ''F3'']" by simp
  have len: "0 < length (rows scenario)" "3 < length (rows scenario)"
    by (simp_all add: scenario_rows)
  have v: "MatchFeature scenario_cfg 0 3 ''F3'' = Inr False"
    "MatchFeature scenario_cfg 0 1 ''F3'' = Inr True"
    by code_simp+
  note t = MatchFeature_iff [OF scenario_checks scenario_wf f len]
  from scenario_checks scenario_wf f len t v show ?thesis
    by (intro conjI) assumption+
qed

text \<open>
  C3. What the scan returns (it returns unless the clock has not advanced) is one density
  for each item and the neighbors frame; the sum of the densities is twice the number of
  rows of the frame, and each density lies between \<open>0\<close> and \<open>n - 1\<close>, for \<open>n\<close> items.
\<close>

theorem density_sum_and_range:
  assumes "init_checks d fs misses matches = Inr self"
    and "wf_frame d" and "''Code'' \<in> set (columns d)"
  shows "\<exists>dens nbrs.
         Compute clk self =
           (if stop_time clk = start_time clk then Inl ZeroDivisionError else Inr (dens, nbrs))
       \<and> length dens = length (rows d)
       \<and> sum_list dens = 2 * int (length nbrs)
       \<and> (\<forall>x \<in> set dens. 0 \<le> x \<and> x \<le> int (length (rows d)) - 1)"
proof -
  note c = init_checks_Inr [OF assms(1)]
  let ?n = "length (rows d)"
  let ?acc = "accepted_pairs self"
  have rng: "\<forall>p \<in> set ?acc. fst p < ?n \<and> snd p < ?n \<and> fst p \<noteq> snd p"
    using accepted_pairs_range [of _ self] c(1) by fastforce
  have eq: "Compute clk self =
      (if stop_time clk = start_time clk then Inl ZeroDivisionError
       else Inr (map (density ?acc) [0 ..< ?n], map (pair_row self) ?acc))"
    using Compute_eq [of self clk] assms(2,3) c(1,2,4) by simp
  have sum: "sum_list (map (density ?acc) [0 ..< ?n]) = 2 * int (length (map (pair_row self) ?acc))"
    using sum_density [OF rng] by simp
  have sub: "set ?acc \<subseteq> set (scan_pairs ?n)"
    using c(1) by (auto simp add: accepted_pairs_def)
  have "\<forall>x \<in> set (map (density ?acc) [0 ..< ?n]). 0 \<le> x \<and> x \<le> int ?n - 1"
    using density_scan_le [OF sub distinct_accepted_pairs] by (auto simp add: density_def)
  with eq sum show ?thesis by (intro exI conjI) (assumption | simp)+
qed

theorem density_sum_and_range_witness:
  "init_checks scenario [''F1'', ''F2'', ''F3''] 0 None = Inr scenario_cfg
   \<and> wf_frame scenario \<and> ''Code'' \<in> set (columns scenario)
   \<and> stop_time running_clock \<noteq> start_time running_clock
   \<and> (\<exists>dens nbrs. Compute running_clock scenario_cfg = Inr (dens, nbrs)
       \<and> length dens = length (rows scenario)
       \<and> sum_list dens = 2 * int (length nbrs)
       \<and> (\<forall>x \<in> set dens. 0 \<le> x \<and> x \<le> int (length (rows scenario)) - 1))
   \<and> Compute running_clock scenario_cfg =
        Inr ([1, 1, 0, 0],
             [\<lparr>target = Some 1, neighbor = Some 2, num_matched_features = 3,
               matched_features = ''F1, F2, F3''\<rparr>])"
proof -
  have v: "Compute running_clock scenario_cfg =
        Inr ([1, 1, 0, 0],
             [\<lparr>target = Some 1, neighbor = Some 2, num_matched_features = 3,
               matched_features = ''F1, F2, F3''\<rparr>])"
    by code_simp
  have ne: "stop_time running_clock \<noteq> start_time running_clock"
    by (simp add: running_clock_def)
  from density_sum_and_range [OF scenario_checks scenario_wf scenario_Code,
      where clk = running_clock] ne
  have "\<exists>dens nbrs. Compute running_clock scenario_cfg = Inr (dens, nbrs)
       \<and> length dens = length (rows scenario)
       \<and> sum_list dens = 2 * int (length nbrs)
       \<and> (\<forall>x \<in> set dens. 0 \<le> x \<and> x \<le> int (length (rows scenario)) - 1)"
    by simp
  with v ne show ?thesis
    using scenario_checks scenario_wf scenario_Code by blast
qed

text \<open>
  C4, as the code has it. For an object that \<^verbatim>\<open>__init__\<close> has built, reading the property
  \<^verbatim>\<open>Neighbors\<close> returns the mirrored frame, and so does the getter with
  \<open>mirror_neighbors = True\<close>, which is the default of the parameter: mirroring is what the
  accessor does unless it is switched off. With \<open>mirror_neighbors = False\<close> the getter
  returns one row for each accepted pair, the pairs being distinct and each with \<open>i < j\<close>.
  Whatever the value of the parameter, the object is left as it was, and the densities
  count each accepted pair for both of its items.
\<close>

theorem mirroring_is_default:
  assumes "init clk d fs misses matches = Inr obj"
    and "wf_frame d" and "''Code'' \<in> set (columns d)"
  shows "Neighbors_property obj = (obj, MirrorNeighbors obj)
       \<and> Neighbors_fget obj True = (obj, MirrorNeighbors obj)
       \<and> Neighbors_fget obj False = (obj, map (pair_row obj) (accepted_pairs obj))
       \<and> distinct (accepted_pairs obj)
       \<and> (\<forall>p \<in> set (accepted_pairs obj). fst p < snd p)
       \<and> (\<forall>b. ND (fst (Neighbors_fget obj b)) = ND obj)
       \<and> ND obj = map (density (accepted_pairs obj)) [0 ..< length (rows d)]"
proof -
  from init_Inr [OF assms(1)] obtain cfg dens nbrs where
    cfg: "init_checks d fs misses matches = Inr cfg" and
    cmp: "Compute clk cfg = Inr (dens, nbrs)" and
    obj: "obj = config.extend cfg (Neighbors_obj.fields dens nbrs)" by blast
  note c = init_checks_Inr [OF cfg]
  have "Compute clk cfg =
      (if stop_time clk = start_time clk then Inl ZeroDivisionError
       else Inr (map (density (accepted_pairs cfg)) [0 ..< length (rows d)],
           map (pair_row cfg) (accepted_pairs cfg)))"
    using Compute_eq [of cfg clk] assms(2,3) c(1,2,4) by simp
  with cmp have dens: "dens = map (density (accepted_pairs cfg)) [0 ..< length (rows d)]"
    and nbrs: "nbrs = map (pair_row cfg) (accepted_pairs cfg)"
    by (simp_all split: if_splits)
  have lt: "\<forall>p \<in> set (accepted_pairs obj). fst p < snd p"
    using accepted_pairs_range [of _ obj] by blast
  show ?thesis
    using lt distinct_accepted_pairs [of obj]
    by (simp add: Neighbors_property_def Neighbors_fget_def ND_def) (simp add: obj dens nbrs)
qed

text \<open>The theorem of C4 on the scenario.\<close>

theorem mirroring_is_default_witness:
  "init running_clock scenario [''F1'', ''F2'', ''F3''] 0 None = Inr scenario_obj
   \<and> wf_frame scenario \<and> ''Code'' \<in> set (columns scenario)
   \<and> Neighbors_property scenario_obj = (scenario_obj, MirrorNeighbors scenario_obj)
   \<and> Neighbors_fget scenario_obj True = (scenario_obj, MirrorNeighbors scenario_obj)
   \<and> Neighbors_fget scenario_obj False =
        (scenario_obj, map (pair_row scenario_obj) (accepted_pairs scenario_obj))
   \<and> distinct (accepted_pairs scenario_obj)
   \<and> accepted_pairs scenario_obj = [(0, 1)]
   \<and> (\<forall>b. ND (fst (Neighbors_fget scenario_obj b)) = ND scenario_obj)
   \<and> ND scenario_obj = map (density (accepted_pairs scenario_obj)) [0 ..< length (rows scenario)]"
proof -
  have i: "init running_clock scenario [''F1'', ''F2'', ''F3''] 0 None = Inr scenario_obj"
    by code_simp
  have a: "accepted_pairs scenario_obj = [(0, 1)]"
    by code_simp
  show ?thesis
    using mirroring_is_default [OF i scenario_wf scenario_Code] i a scenario_wf scenario_Code
    by blast
qed

text \<open>
  C4 as stated does not hold: in the scenario the scan accepts the single pair (A, B), and
  reading the property, with no request for mirroring, returns the two rows (A, B) and
  (B, A).
\<close>

theorem mirrored_without_request:
  "init running_clock scenario [''F1'', ''F2'', ''F3''] 0 None = Inr scenario_obj
   \<and> self_neighbors scenario_obj =
       [\<lparr>target = Some 1, neighbor = Some 2, num_matched_features = 3,
         matched_features = ''F1, F2, F3''\<rparr>]
   \<and> Neighbors_property scenario_obj =
       (scenario_obj,
        [\<lparr>target = Some 1, neighbor = Some 2, num_matched_features = 3,
          matched_features = ''F1, F2, F3''\<rparr>,
         \<lparr>target = Some 2, neighbor = Some 1, num_matched_features = 3,
          matched_features = ''F1, F2, F3''\<rparr>])"
  by code_simp

text \<open>
  C5, as the code has it. When every requested feature is a column of the data,
  construction fails with one of the threshold errors exactly when \<open>allowed_misses\<close> is
  outside \<open>[0, k - 1]\<close> or a supplied \<open>allowed_matches\<close> is outside \<open>[1, k]\<close>; a threshold
  error of the construction is always the one raised by the checks, which precede the
  scan; and when \<open>allowed_matches\<close> is not supplied and \<open>allowed_misses\<close> is in range, the
  checks pass with \<open>allowed_matches = k\<close>.
\<close>

theorem threshold_errors:
  assumes "set fs \<subseteq> set (columns d)"
  shows "((\<exists>e. init clk d fs misses matches = Inl e \<and> is_InvalidThresholdError e) \<longleftrightarrow>
           (misses < 0 \<or> int (length fs) - 1 < misses
            \<or> (\<exists>m. matches = Some m \<and> (m < 1 \<or> int (length fs) < m))))
       \<and> (\<forall>e. is_InvalidThresholdError e \<and> init clk d fs misses matches = Inl e \<longrightarrow>
             init_checks d fs misses matches = Inl e)
       \<and> (0 \<le> misses \<and> misses \<le> int (length fs) - 1 \<longrightarrow>
             init_checks d fs misses None =
               Inr \<lparr>data = d, features = fs, allowed_misses = misses,
                    allowed_matches = int (length fs)\<rparr>)"
proof -
  have chk: "\<forall>e. is_InvalidThresholdError e \<and> init clk d fs misses matches = Inl e \<longrightarrow>
             init_checks d fs misses matches = Inl e"
    using init_Inl [of clk d fs misses matches] scan_not_threshold by blast
  have "(\<exists>e. init clk d fs misses matches = Inl e \<and> is_InvalidThresholdError e) \<longleftrightarrow>
        (\<exists>e. init_checks d fs misses matches = Inl e \<and> is_InvalidThresholdError e)"
    using chk init_checks_Inl_init [where clk = clk] by blast
  then have iff: "(\<exists>e. init clk d fs misses matches = Inl e \<and> is_InvalidThresholdError e) \<longleftrightarrow>
           (misses < 0 \<or> int (length fs) - 1 < misses
            \<or> (\<exists>m. matches = Some m \<and> (m < 1 \<or> int (length fs) < m)))"
    using init_checks_threshold [OF assms, of misses matches] by simp
  have "filter (\<lambda>x. x \<notin> set (columns d)) fs = []"
    using assms by (auto simp add: filter_empty_conv)
  then have dflt: "0 \<le> misses \<and> misses \<le> int (length fs) - 1 \<longrightarrow>
             init_checks d fs misses None =
               Inr \<lparr>data = d, features = fs, allowed_misses = misses,
                    allowed_matches = int (length fs)\<rparr>"
    by (simp add: init_checks_def)
  from iff chk dflt show ?thesis by blast
qed

text \<open>The theorem of C5 on the scenario, with \<open>allowed_misses = k = 3\<close>.\<close>

theorem threshold_errors_witness:
  "set [''F1'', ''F2'', ''F3''] \<subseteq> set (columns scenario)
   \<and> ((\<exists>e. init running_clock scenario [''F1'', ''F2'', ''F3''] 3 None = Inl e \<and> is_InvalidThresholdError e) \<longleftrightarrow>
           ((3::int) < 0 \<or> int (length [''F1'', ''F2'', ''F3'']) - 1 < 3
            \<or> (\<exists>m. (None :: int option) = Some m \<and> (m < 1 \<or> int (length [''F1'', ''F2'', ''F3'']) < m))))
   \<and> init running_clock scenario [''F1'', ''F2'', ''F3''] 3 None = Inl AllowedMissesTooLarge"
proof -
  have s: "set [''F1'', ''F2'', ''F3''] \<subseteq> set (columns scenario)"
    by (simp add: scenario_def)
  have e: "init running_clock scenario [''F1'', ''F2'', ''F3''] 3 None = Inl AllowedMissesTooLarge"
    by code_simp
  show ?thesis
    using threshold_errors [OF s, where clk = running_clock and misses = 3 and matches = None] s e
    by blast
qed

text \<open>
  C5 as stated does not hold: with the feature F9, which is not a column of the scenario,
  and \<open>allowed_misses = 5\<close>, outside \<open>[0, k - 1] = [0, 0]\<close>, construction fails with the
  error of the missing feature, which is checked first, not with a threshold error.
\<close>

theorem feature_error_before_threshold:
  "init running_clock scenario [''F9''] 5 None = Inl (FeaturesNotInData [''F9''])
   \<and> \<not> is_InvalidThresholdError (FeaturesNotInData [''F9''])
   \<and> int (length [''F9'']) - 1 < 5"
  by code_simp

text \<open>
  C6. When some requested feature is not a column of the data, construction fails,
  whatever the thresholds and the rows, with the error that carries every feature that
  is not a column, in the order of the request; when every requested feature is a column,
  construction does not fail with that error.
\<close>

theorem unknown_feature_error:
  "(\<not> set fs \<subseteq> set (columns d) \<longrightarrow>
      init clk d fs misses matches = Inl (FeaturesNotInData (filter (\<lambda>x. x \<notin> set (columns d)) fs))
      \<and> set (filter (\<lambda>x. x \<notin> set (columns d)) fs) = set fs - set (columns d))
   \<and> (set fs \<subseteq> set (columns d) \<longrightarrow>
        (\<forall>e. init clk d fs misses matches = Inl e \<longrightarrow> \<not> is_UnknownFeatureError e))"
proof -
  have a: "\<not> set fs \<subseteq> set (columns d) \<longrightarrow>
      init clk d fs misses matches = Inl (FeaturesNotInData (filter (\<lambda>x. x \<notin> set (columns d)) fs))"
  proof
    assume "\<not> set fs \<subseteq> set (columns d)"
    then have "filter (\<lambda>x. x \<notin> set (columns d)) fs \<noteq> []"
      by (auto simp add: filter_empty_conv)
    then have "init_checks d fs misses matches =
        Inl (FeaturesNotInData (filter (\<lambda>x. x \<notin> set (columns d)) fs))"
      by (simp add: init_checks_def)
    then show "init clk d fs misses matches =
        Inl (FeaturesNotInData (filter (\<lambda>x. x \<notin> set (columns d)) fs))"
      by (rule init_checks_Inl_init)
  qed
  have b: "set (filter (\<lambda>x. x \<notin> set (columns d)) fs) = set fs - set (columns d)"
    by auto
  have c: "set fs \<subseteq> set (columns d) \<longrightarrow>
        (\<forall>e. init clk d fs misses matches = Inl e \<longrightarrow> \<not> is_UnknownFeatureError e)"
  proof (intro impI allI)
    fix e
    assume s: "set fs \<subseteq> set (columns d)" and e: "init clk d fs misses matches = Inl e"
    from init_Inl [OF e] show "\<not> is_UnknownFeatureError e"
    proof
      assume i: "init_checks d fs misses matches = Inl e"
      have "filter (\<lambda>x. x \<notin> set (columns d)) fs = []"
        using s by (auto simp add: filter_empty_conv)
      with i show ?thesis
        by (auto simp add: init_checks_def split: if_splits option.splits)
    next
      assume "scan_error e"
      then show ?thesis by (rule scan_not_feature)
    qed
  qed
  from a b c show ?thesis by blast
qed

text \<open>The theorem of C6 on the scenario, with two missing features and with none.\<close>

theorem unknown_feature_error_witness:
  "\<not> set [''F1'', ''F8'', ''F9''] \<subseteq> set (columns scenario)
   \<and> init running_clock scenario [''F1'', ''F8'', ''F9''] 0 None = Inl (FeaturesNotInData [''F8'', ''F9''])
   \<and> set [''F1'', ''F2''] \<subseteq> set (columns scenario)
   \<and> \<not> (\<exists>e. init running_clock scenario [''F1'', ''F2''] 0 None = Inl e \<and> is_UnknownFeatureError e)"
proof -
  have n: "\<not> set [''F1'', ''F8'', ''F9''] \<subseteq> set (columns scenario)"
    by (simp add: scenario_def)
  have f: "filter (\<lambda>x. x \<notin> set (columns scenario)) [''F1'', ''F8'', ''F9''] = [''F8'', ''F9'']"
    by (simp add: scenario_def)
  have s: "set [''F1'', ''F2''] \<subseteq> set (columns scenario)"
    by (simp add: scenario_def)
  show ?thesis
    using unknown_feature_error [where fs = "[''F1'', ''F8'', ''F9'']" and d = scenario
        and clk = running_clock and misses = 0 and matches = None]
      unknown_feature_error [where fs = "[''F1'', ''F2'']" and d = scenario
        and clk = running_clock and misses = 0 and matches = None] n f s
    by simp
qed

text \<open>
  C7. The mirrored frame consists of the rows of the neighbors frame and of the same rows
  with target and neighbor exchanged and the other two columns unchanged, twice as many
  rows in all. It is sorted by target and then neighbor, ascending, missing codes last: of
  two rows of the frame, the earlier one has the target that comes first, or the same
  target and a neighbor that does not come after that of the later one. And the rows of
  the mirrored frame with \<open>target \<le> neighbor\<close> are, as unordered pairs with their match
  count and matched features, those of the neighbors frame.
\<close>

theorem mirror_rows:
  "set (MirrorNeighbors self) = set (self_neighbors self) \<union> swap_row ` set (self_neighbors self)
   \<and> length (MirrorNeighbors self) = 2 * length (self_neighbors self)
   \<and> (\<forall>r. target (swap_row r) = neighbor r \<and> neighbor (swap_row r) = target r
          \<and> num_matched_features (swap_row r) = num_matched_features r
          \<and> matched_features (swap_row r) = matched_features r)
   \<and> sorted_wrt (\<lambda>r r'. code_before (target r) (target r')
                    \<or> (target r = target r' \<and> \<not> code_before (neighbor r') (neighbor r)))
        (MirrorNeighbors self)
   \<and> unordered ` set (deduplicate (MirrorNeighbors self)) = unordered ` set (self_neighbors self)"
proof (intro conjI)
  show "set (MirrorNeighbors self) =
      set (self_neighbors self) \<union> swap_row ` set (self_neighbors self)"
    by (rule set_MirrorNeighbors)
  show "length (MirrorNeighbors self) = 2 * length (self_neighbors self)"
    by (rule length_MirrorNeighbors)
  show "\<forall>r. target (swap_row r) = neighbor r \<and> neighbor (swap_row r) = target r
          \<and> num_matched_features (swap_row r) = num_matched_features r
          \<and> matched_features (swap_row r) = matched_features r"
    by simp
  show "sorted_wrt (\<lambda>r r'. code_before (target r) (target r')
                    \<or> (target r = target r' \<and> \<not> code_before (neighbor r') (neighbor r)))
        (MirrorNeighbors self)"
    by (rule sorted_by_codes)
  show "unordered ` set (deduplicate (MirrorNeighbors self)) = unordered ` set (self_neighbors self)"
    using deduplicate_mirror [of "self_neighbors self"] by (simp add: MirrorNeighbors_def)
qed

text \<open>
  The theorem of C7 on a frame whose accepted pairs are (5, 1) and (missing, 3): the
  mirror puts the four rows in the order (1, 5), (3, missing), (5, 1), (missing, 3), and
  the deduplication keeps the first two.
\<close>

theorem mirror_rows_witness:
  "init running_clock unsorted_frame [''F1''] 0 None = Inr unsorted_obj
   \<and> set (MirrorNeighbors unsorted_obj) =
      set (self_neighbors unsorted_obj) \<union> swap_row ` set (self_neighbors unsorted_obj)
   \<and> sorted_wrt (\<lambda>r r'. code_before (target r) (target r')
                    \<or> (target r = target r' \<and> \<not> code_before (neighbor r') (neighbor r)))
        (MirrorNeighbors unsorted_obj)
   \<and> unordered ` set (deduplicate (MirrorNeighbors unsorted_obj)) =
        unordered ` set (self_neighbors unsorted_obj)
   \<and> MirrorNeighbors unsorted_obj =
       [\<lparr>target = Some 1, neighbor = Some 5, num_matched_features = 1, matched_features = ''F1''\<rparr>,
        \<lparr>target = Some 3, neighbor = None, num_matched_features = 1, matched_features = ''F1''\<rparr>,
        \<lparr>target = Some 5, neighbor = Some 1, num_matched_features = 1, matched_features = ''F1''\<rparr>,
        \<lparr>target = None, neighbor = Some 3, num_matched_features = 1, matched_features = ''F1''\<rparr>]
   \<and> deduplicate (MirrorNeighbors unsorted_obj) =
       [\<lparr>target = Some 1, neighbor = Some 5, num_matched_features = 1, matched_features = ''F1''\<rparr>,
        \<lparr>target = Some 3, neighbor = None, num_matched_features = 1, matched_features = ''F1''\<rparr>]"
proof -
  have i: "init running_clock unsorted_frame [''F1''] 0 None = Inr unsorted_obj"
    by code_simp
  have m: "MirrorNeighbors unsorted_obj =
       [\<lparr>target = Some 1, neighbor = Some 5, num_matched_features = 1, matched_features = ''F1''\<rparr>,
        \<lparr>target = Some 3, neighbor = None, num_matched_features = 1, matched_features = ''F1''\<rparr>,
        \<lparr>target = Some 5, neighbor = Some 1, num_matched_features = 1, matched_features = ''F1''\<rparr>,
        \<lparr>target = None, neighbor = Some 3, num_matched_features = 1, matched_features = ''F1''\<rparr>]"
    by code_simp
  have d: "deduplicate (MirrorNeighbors unsorted_obj) =
       [\<lparr>target = Some 1, neighbor = Some 5, num_matched_features = 1, matched_features = ''F1''\<rparr>,
        \<lparr>target = Some 3, neighbor = None, num_matched_features = 1, matched_features = ''F1''\<rparr>]"
    by code_simp
  note t = mirror_rows [of unsorted_obj]
  from t have 1: "set (MirrorNeighbors unsorted_obj) =
      set (self_neighbors unsorted_obj) \<union> swap_row ` set (self_neighbors unsorted_obj)"
    by (elim conjE)
  from t have 2: "sorted_wrt (\<lambda>r r'. code_before (target r) (target r')
                    \<or> (target r = target r' \<and> \<not> code_before (neighbor r') (neighbor r)))
        (MirrorNeighbors unsorted_obj)"
    by (elim conjE)
  from t have 3: "unordered ` set (deduplicate (MirrorNeighbors unsorted_obj)) =
        unordered ` set (self_neighbors unsorted_obj)"
    by (elim conjE)
  from i 1 2 3 m d show ?thesis by (intro conjI)
qed

text \<open>
  C8. Once the checks have passed, the rows of the neighbors frame that the scan returns
  (it returns unless the clock has not advanced) are those of the
  accepted pairs of \<open>scan_pairs n\<close>, in that order; \<open>scan_pairs n\<close> holds exactly the pairs
  \<open>i < j < n\<close>, each once, with \<open>i\<close> ascending and then \<open>j\<close> ascending; the loop body leaves
  the state unchanged on a pair \<open>(i, i)\<close>; and the row of a pair has the code of item \<open>i\<close> as
  target and the code of item \<open>j\<close> as neighbor.
\<close>

theorem scan_order:
  assumes "init_checks d fs misses matches = Inr self"
    and "wf_frame d" and "''Code'' \<in> set (columns d)"
  shows "(\<exists>dens. Compute clk self =
            (if stop_time clk = start_time clk then Inl ZeroDivisionError
             else Inr (dens, map (pair_row self)
                         (filter (accepts self) (scan_pairs (length (rows d)))))))
       \<and> set (scan_pairs (length (rows d))) = {(i, j). i < j \<and> j < length (rows d)}
       \<and> distinct (scan_pairs (length (rows d)))
       \<and> sorted_wrt pair_less (scan_pairs (length (rows d)))
       \<and> (\<forall>i st. pair_step self i i st = Inr st)
       \<and> (\<forall>p \<in> set (scan_pairs (length (rows d))).
            Code_of d (fst p) = Inr (target (pair_row self p))
            \<and> Code_of d (snd p) = Inr (neighbor (pair_row self p)))"
proof -
  note c = init_checks_Inr [OF assms(1)]
  have "Compute clk self =
      (if stop_time clk = start_time clk then Inl ZeroDivisionError
       else Inr (map (density (accepted_pairs self)) [0 ..< length (rows d)],
           map (pair_row self) (filter (accepts self) (scan_pairs (length (rows d))))))"
    using Compute_eq [of self clk] assms(2,3) c(1,2,4) by (simp add: accepted_pairs_def)
  then have 1: "\<exists>dens. Compute clk self =
            (if stop_time clk = start_time clk then Inl ZeroDivisionError
             else Inr (dens, map (pair_row self)
                         (filter (accepts self) (scan_pairs (length (rows d))))))"
    by blast
  have 2: "\<forall>i st. pair_step self i i st = Inr st"
    by (simp add: pair_step_def)
  have 3: "\<forall>p \<in> set (scan_pairs (length (rows d))).
            Code_of d (fst p) = Inr (target (pair_row self p))
            \<and> Code_of d (snd p) = Inr (neighbor (pair_row self p))"
    using assms(2,3) c(1) by (auto simp add: set_scan_pairs Code_of_ok pair_row_def)
  show ?thesis
    using 1 2 3 set_scan_pairs [of "length (rows d)"] distinct_scan_pairs sorted_scan_pairs
    by blast
qed

text \<open>The theorem of C8 on the scenario, with the six pairs of its four items.\<close>

theorem scan_order_witness:
  "init_checks scenario [''F1'', ''F2'', ''F3''] 0 None = Inr scenario_cfg
   \<and> wf_frame scenario \<and> ''Code'' \<in> set (columns scenario)
   \<and> stop_time running_clock \<noteq> start_time running_clock
   \<and> (\<exists>dens. Compute running_clock scenario_cfg =
         Inr (dens, map (pair_row scenario_cfg)
                (filter (accepts scenario_cfg) (scan_pairs (length (rows scenario))))))
   \<and> set (scan_pairs (length (rows scenario))) = {(i, j). i < j \<and> j < length (rows scenario)}
   \<and> distinct (scan_pairs (length (rows scenario)))
   \<and> sorted_wrt pair_less (scan_pairs (length (rows scenario)))
   \<and> (\<forall>i st. pair_step scenario_cfg i i st = Inr st)
   \<and> Code_of scenario 0 = Inr (target (pair_row scenario_cfg (0, 1)))
   \<and> Code_of scenario 1 = Inr (neighbor (pair_row scenario_cfg (0, 1)))
   \<and> scan_pairs (length (rows scenario)) = [(0, 1), (0, 2), (0, 3), (1, 2), (1, 3), (2, 3)]"
proof -
  have p: "scan_pairs (length (rows scenario)) = [(0, 1), (0, 2), (0, 3), (1, 2), (1, 3), (2, 3)]"
    by code_simp
  then have m: "(0, 1) \<in> set (scan_pairs (length (rows scenario)))"
    by simp
  have ne: "stop_time running_clock \<noteq> start_time running_clock"
    by (simp add: running_clock_def)
  note t = scan_order [OF scenario_checks scenario_wf scenario_Code,
      where clk = running_clock]
  from t m have c: "Code_of scenario 0 = Inr (target (pair_row scenario_cfg (0, 1)))
      \<and> Code_of scenario 1 = Inr (neighbor (pair_row scenario_cfg (0, 1)))"
    by fastforce
  from t obtain dens where "Compute running_clock scenario_cfg =
      (if stop_time running_clock = start_time running_clock then Inl ZeroDivisionError
       else Inr (dens, map (pair_row scenario_cfg)
              (filter (accepts scenario_cfg) (scan_pairs (length (rows scenario))))))"
    by blast
  with ne have r: "\<exists>dens. Compute running_clock scenario_cfg =
         Inr (dens, map (pair_row scenario_cfg)
                (filter (accepts scenario_cfg) (scan_pairs (length (rows scenario)))))"
    by auto
  from t have 1: "set (scan_pairs (length (rows scenario))) =
      {(i, j). i < j \<and> j < length (rows scenario)}"
    by (elim conjE)
  from t have 2: "distinct (scan_pairs (length (rows scenario)))"
    by (elim conjE)
  from t have 3: "sorted_wrt pair_less (scan_pairs (length (rows scenario)))"
    by (elim conjE)
  from t have 4: "\<forall>i st. pair_step scenario_cfg i i st = Inr st"
    by (elim conjE)
  from c have c1: "Code_of scenario 0 = Inr (target (pair_row scenario_cfg (0, 1)))"
    and c2: "Code_of scenario 1 = Inr (neighbor (pair_row scenario_cfg (0, 1)))"
    by simp_all
  from scenario_checks scenario_wf scenario_Code ne r 1 2 3 4 c1 c2 p
  show ?thesis by (intro conjI)
qed

text \<open>
  C9. The code does not keep what the claim says. On the scenario the checks pass; when
  the clock has not advanced between the start of \<^verbatim>\<open>_Compute\<close> and the end of its loops,
  the rate of the last message divides by a time passed of zero, and \<^verbatim>\<open>_Compute\<close>, and
  with it the construction, raises \<^verbatim>\<open>ZeroDivisionError\<close> instead of returning the two
  tables. On the same data with a clock that has advanced, construction returns the
  object.
\<close>

theorem stalled_clock_raises:
  "init_checks scenario [''F1'', ''F2'', ''F3''] 0 None = Inr scenario_cfg
   \<and> stop_time stalled_clock = start_time stalled_clock
   \<and> Compute stalled_clock scenario_cfg = Inl ZeroDivisionError
   \<and> init stalled_clock scenario [''F1'', ''F2'', ''F3''] 0 None = Inl ZeroDivisionError
   \<and> init running_clock scenario [''F1'', ''F2'', ''F3''] 0 None = Inr scenario_obj"
proof (intro conjI)
  show "init_checks scenario [''F1'', ''F2'', ''F3''] 0 None = Inr scenario_cfg"
    by (rule scenario_checks)
  show "stop_time stalled_clock = start_time stalled_clock"
    by (simp add: stalled_clock_def)
  show "Compute stalled_clock scenario_cfg = Inl ZeroDivisionError"
    by code_simp
  show "init stalled_clock scenario [''F1'', ''F2'', ''F3''] 0 None = Inl ZeroDivisionError"
    by code_simp
  show "init running_clock scenario [''F1'', ''F2'', ''F3''] 0 None = Inr scenario_obj"
    by code_simp
qed

text \<open>
  C10, as the code has it. Once the checks have passed, every row of the neighbors frame
  that the scan returns has a match count of at least 1, and, when no feature name is the
  empty string, a text of matched features that is not empty; the feature list is not
  empty, and construction with an empty feature list fails with a threshold error
  whatever the thresholds.
\<close>

theorem emitted_rows_nonempty:
  assumes "init_checks d fs misses matches = Inr self"
    and "wf_frame d" and "''Code'' \<in> set (columns d)"
  shows "(\<exists>dens nbrs.
            Compute clk self =
              (if stop_time clk = start_time clk then Inl ZeroDivisionError
               else Inr (dens, nbrs))
            \<and> (\<forall>r \<in> set nbrs. 1 \<le> num_matched_features r
                  \<and> ('''' \<notin> set fs \<longrightarrow> matched_features r \<noteq> '''')))
       \<and> fs \<noteq> []
       \<and> (\<forall>m a. \<exists>e. init clk d [] m a = Inl e \<and> is_InvalidThresholdError e)"
proof -
  note c = init_checks_Inr [OF assms(1)]
  have eq: "Compute clk self =
      (if stop_time clk = start_time clk then Inl ZeroDivisionError
       else Inr (map (density (accepted_pairs self)) [0 ..< length (rows d)],
                 map (pair_row self) (accepted_pairs self)))"
    using Compute_eq [of self clk] assms(2,3) c(1,2,4) by simp
  have cnt: "\<forall>p \<in> set (accepted_pairs self). 1 \<le> match_count self (fst p) (snd p)"
    using c(2,3,6) by (auto simp add: accepted_pairs_def accepts_def)
  have "\<forall>r \<in> set (map (pair_row self) (accepted_pairs self)).
      1 \<le> num_matched_features r \<and> ('''' \<notin> set fs \<longrightarrow> matched_features r \<noteq> '''')"
  proof
    fix r
    assume "r \<in> set (map (pair_row self) (accepted_pairs self))"
    then obtain p where p: "p \<in> set (accepted_pairs self)" and r: "r = pair_row self p"
      by auto
    from cnt p have m: "1 \<le> match_count self (fst p) (snd p)" by blast
    have "'''' \<notin> set fs \<longrightarrow> matched_names self (fst p) (snd p) \<noteq> ''''"
      using matched_names_nonempty [of self "fst p" "snd p"] m c(2) by simp
    with m r show "1 \<le> num_matched_features r
        \<and> ('''' \<notin> set fs \<longrightarrow> matched_features r \<noteq> '''')"
      by (simp add: pair_row_def)
  qed
  with eq have 1: "\<exists>dens nbrs.
            Compute clk self =
              (if stop_time clk = start_time clk then Inl ZeroDivisionError
               else Inr (dens, nbrs))
            \<and> (\<forall>r \<in> set nbrs. 1 \<le> num_matched_features r
                  \<and> ('''' \<notin> set fs \<longrightarrow> matched_features r \<noteq> ''''))"
    by blast
  have 2: "fs \<noteq> []" using c(5,6) by auto
  have 3: "\<forall>m a. \<exists>e. init clk d [] m a = Inl e \<and> is_InvalidThresholdError e"
  proof (intro allI)
    fix m :: int and a :: "int option"
    have "\<exists>e. init_checks d [] m a = Inl e \<and> is_InvalidThresholdError e"
      by (cases "m < 0") (auto simp add: init_checks_def)
    then show "\<exists>e. init clk d [] m a = Inl e \<and> is_InvalidThresholdError e"
      using init_checks_Inl_init by blast
  qed
  from 1 2 3 show ?thesis by (intro conjI)
qed

text \<open>
  The theorem of C10 on the scenario, where no feature name is empty, and on the frame
  with the unnamed column, where the match count of the row is 1 and its text is empty.
\<close>

theorem emitted_rows_nonempty_witness:
  "init_checks scenario [''F1'', ''F2'', ''F3''] 0 None = Inr scenario_cfg
   \<and> wf_frame scenario \<and> ''Code'' \<in> set (columns scenario)
   \<and> '''' \<notin> set [''F1'', ''F2'', ''F3'']
   \<and> stop_time running_clock \<noteq> start_time running_clock
   \<and> (\<exists>dens nbrs. Compute running_clock scenario_cfg = Inr (dens, nbrs)
         \<and> (\<forall>r \<in> set nbrs. 1 \<le> num_matched_features r \<and> matched_features r \<noteq> ''''))
   \<and> (\<forall>m a. \<exists>e. init running_clock scenario [] m a = Inl e \<and> is_InvalidThresholdError e)
   \<and> init_checks unnamed_frame [''''] 0 None = Inr unnamed_cfg
   \<and> wf_frame unnamed_frame \<and> ''Code'' \<in> set (columns unnamed_frame)
   \<and> (\<exists>dens nbrs. Compute running_clock unnamed_cfg = Inr (dens, nbrs)
         \<and> (\<forall>r \<in> set nbrs. 1 \<le> num_matched_features r))
   \<and> Compute running_clock unnamed_cfg =
        Inr ([1, 1],
             [\<lparr>target = Some 1, neighbor = Some 2, num_matched_features = 1,
               matched_features = ''''\<rparr>])"
proof -
  have n: "'''' \<notin> set [''F1'', ''F2'', ''F3'']" by simp
  have ne: "stop_time running_clock \<noteq> start_time running_clock"
    by (simp add: running_clock_def)
  have uc: "init_checks unnamed_frame [''''] 0 None = Inr unnamed_cfg"
    by (simp add: init_checks_def unnamed_frame_def unnamed_cfg_def)
  have uw: "wf_frame unnamed_frame"
    by (simp add: wf_frame_def unnamed_frame_def)
  have uk: "''Code'' \<in> set (columns unnamed_frame)"
    by (simp add: unnamed_frame_def)
  have v: "Compute running_clock unnamed_cfg =
        Inr ([1, 1],
             [\<lparr>target = Some 1, neighbor = Some 2, num_matched_features = 1,
               matched_features = ''''\<rparr>])"
    by code_simp
  note s = emitted_rows_nonempty [OF scenario_checks scenario_wf scenario_Code,
      where clk = running_clock]
  note u = emitted_rows_nonempty [OF uc uw uk, where clk = running_clock]
  from s obtain dens nbrs where
    "Compute running_clock scenario_cfg =
       (if stop_time running_clock = start_time running_clock then Inl ZeroDivisionError
        else Inr (dens, nbrs))"
    and "\<forall>r \<in> set nbrs. 1 \<le> num_matched_features r
          \<and> ('''' \<notin> set [''F1'', ''F2'', ''F3''] \<longrightarrow> matched_features r \<noteq> '''')"
    by blast
  with ne n have 1: "\<exists>dens nbrs. Compute running_clock scenario_cfg = Inr (dens, nbrs)
         \<and> (\<forall>r \<in> set nbrs. 1 \<le> num_matched_features r \<and> matched_features r \<noteq> '''')"
    by auto
  from s have 2: "\<forall>m a. \<exists>e. init running_clock scenario [] m a = Inl e
      \<and> is_InvalidThresholdError e"
    by (elim conjE)
  from u obtain dens' nbrs' where
    "Compute running_clock unnamed_cfg =
       (if stop_time running_clock = start_time running_clock then Inl ZeroDivisionError
        else Inr (dens', nbrs'))"
    and "\<forall>r \<in> set nbrs'. 1 \<le> num_matched_features r
          \<and> ('''' \<notin> set [''''::string] \<longrightarrow> matched_features r \<noteq> '''')"
    by blast
  with ne have 3: "\<exists>dens nbrs. Compute running_clock unnamed_cfg = Inr (dens, nbrs)
         \<and> (\<forall>r \<in> set nbrs. 1 \<le> num_matched_features r)"
    by auto
  from scenario_checks scenario_wf scenario_Code n ne 1 2 uc uw uk 3 v
  show ?thesis by (intro conjI)
qed

text \<open>
  C10 as stated does not hold: with a feature whose name is the empty string, on which
  two items match, the row of the pair has the match count 1 and an empty text of matched
  features.
\<close>

theorem empty_name_row:
  "init running_clock unnamed_frame [''''] 0 None =
     Inr \<lparr>data = unnamed_frame, features = [''''], allowed_misses = 0, allowed_matches = 1,
          self_nd = [1, 1],
          self_neighbors = [\<lparr>target = Some 1, neighbor = Some 2, num_matched_features = 1,
                             matched_features = ''''\<rparr>]\<rparr>"
  by code_simp

end
